theory Spec2Isabelle
  imports Main "HOL-Library.Word"
begin

section \<open>Go values handled by the ssh runner\<close>

text \<open>
  The development embeds \<^verbatim>\<open>runner/ssh/runner.go\<close>. The runner is a thin layer over
  collaborators it does not implement: the \<^verbatim>\<open>script\<close> package, \<^verbatim>\<open>golang.org/x/crypto/ssh\<close>
  with its \<^verbatim>\<open>knownhosts\<close> and \<^verbatim>\<open>terminal\<close> subpackages, \<^verbatim>\<open>go-homedir\<close>, and the Go standard
  library. Every call into a collaborator is modelled by (1) a parameter that gives
  the value the collaborator returns, so that theorems quantify over all its possible
  answers, and (2) an entry in the list of calls the operation made, in program order.
  Each operation returns the updated receiver, the \<^verbatim>\<open>error\<close> it returns and that list.
\<close>

type_synonym uint16 = "16 word"
type_synonym uint32 = "32 word"
type_synonym uint64 = "64 word"

text \<open>
  A method call through a nil pointer, and a \<^verbatim>\<open>reflect\<close> accessor applied to a value of
  the wrong kind, panic: the operation does not return.
\<close>

datatype 'a outcome = Panic | Return 'a

text \<open>
  Values of Go's \<^verbatim>\<open>error\<close> interface that the collaborators hand to the runner, as far
  as the runner can tell them apart: an \<^verbatim>\<open>*ssh.ExitError\<close> with the status its
  \<^verbatim>\<open>Waitmsg.ExitStatus()\<close> reports, any other error (with its message), and an error made
  by \<^verbatim>\<open>fmt.Errorf\<close> with a wrapping verb around another error.
\<close>

datatype go_error =
    ExitError int
  | OtherError string
  | Wrapped string go_error

text \<open>
  \<^verbatim>\<open>var exitErr *ssh.ExitError; errors.As(err, &exitErr)\<close> walks the \<^verbatim>\<open>Unwrap\<close> chain and stops
  at the first \<^verbatim>\<open>*ssh.ExitError\<close>; the result is that error's exit status, if there is one.
\<close>

fun errors_As_ExitError :: "go_error \<Rightarrow> int option" where
  "errors_As_ExitError (ExitError status) = Some status"
| "errors_As_ExitError (OtherError msg) = None"
| "errors_As_ExitError (Wrapped msg e) = errors_As_ExitError e"

text \<open>
  \<^verbatim>\<open>fmt.Errorf(format, err)\<close> with the format's wrapping verb: the new error wraps \<^verbatim>\<open>err\<close>.
  Only the constant prefix of the format is kept.
\<close>

definition fmt_Errorf :: "string \<Rightarrow> go_error \<Rightarrow> go_error" where
  "fmt_Errorf format e = Wrapped format e"

text \<open>
  Modelled from the spec: the type \<^verbatim>\<open>script.Script\<close> is declared in the repository's
  \<^verbatim>\<open>script\<close> package, which is not among the sources. The runner reads its field
  \<^verbatim>\<open>Error\<close> (the parse failure recorded when the script was built, nil if none), calls
  \<^verbatim>\<open>Command()\<close> (the script's command line, independent of the arguments) and
  \<^verbatim>\<open>NewReader(arguments)\<close> (the rendered body; its result is a parameter of \<open>New\<close>).
  \<open>Name\<close> identifies the script.
\<close>

record Script =
  Name :: string
  Error :: "go_error option"
  Command :: string

record Connection =
  Type :: string
  Host :: string
  Port :: uint16
  User :: string
  Password :: string
  Insecure :: bool

record Error =
  script :: Script
  command :: string
  exitCode :: int
  err :: go_error

text \<open>
  The value of type \<^verbatim>\<open>error\<close> that an operation of the runner returns: a pointer to an
  \<open>Error\<close> of this package, or an error of a collaborator passed on as it is.
\<close>

datatype ret_error = Envelope Error | Bare go_error

fun is_Envelope :: "ret_error \<Rightarrow> bool" where
  "is_Envelope (Envelope e) = True"
| "is_Envelope (Bare e) = False"

text \<open>The methods of \<^verbatim>\<open>*Error\<close>.\<close>

definition Error_Script :: "Error \<Rightarrow> Script" where
  "Error_Script e = Error.script e"

definition Error_Command :: "Error \<Rightarrow> string" where
  "Error_Command e = Error.command e"

definition Error_ExitCode :: "Error \<Rightarrow> int" where
  "Error_ExitCode e = Error.exitCode e"

definition Error_Unwrap :: "Error \<Rightarrow> go_error" where
  "Error_Unwrap e = Error.err e"

subsection \<open>The ssh collaborator\<close>

datatype stream = os_Stdin | Writer nat

text \<open>
  An \<^verbatim>\<open>*ssh.Session\<close>, reduced to the fields the runner assigns. A \<^verbatim>\<open>*ssh.Client\<close> is
  identified by a number.
\<close>

record ssh_Session =
  Stdin :: "stream option"
  Stdout :: "stream option"
  Stderr :: "stream option"

type_synonym ssh_Client = nat

datatype AuthMethod = ssh_Password string

datatype HostKeyCallback = ssh_InsecureIgnoreHostKey | knownhosts_callback string

record ClientConfig =
  User :: string
  Auth :: "AuthMethod list"
  HostKeyCallback :: "HostKeyCallback option"

text \<open>The four terminal-mode opcodes of package \<^verbatim>\<open>ssh\<close> that the runner names.\<close>

datatype opcode = ECHO | ECHOCTL | TTY_OP_ISPEED | TTY_OP_OSPEED

type_synonym TerminalModes = "(opcode \<times> uint32) list"

datatype Signal = SIGTERM

text \<open>The saved state of the local terminal that \<^verbatim>\<open>terminal.MakeRaw\<close> returns.\<close>

type_synonym terminal_State = nat

text \<open>The calls into collaborators, as recorded in program order.\<close>

datatype event =
    Ev_NewReader
  | Ev_ReadAll
  | Ev_homedir_Expand string
  | Ev_knownhosts_New string
  | Ev_Dial string string ClientConfig
  | Ev_NewSession
  | Ev_StdoutPipe
  | Ev_StderrPipe
  | Ev_IsTerminal
  | Ev_MakeRaw
  | Ev_Restore terminal_State
  | Ev_GetSize
  | Ev_RequestPty string int int TerminalModes
  | Ev_Printf string
  | Ev_session_Run string
  | Ev_session_Start string
  | Ev_session_Wait
  | Ev_Signal Signal
  | Ev_session_Close
  | Ev_client_Close

fun is_RequestPty :: "event \<Rightarrow> bool" where
  "is_RequestPty (Ev_RequestPty term h w m) = True"
| "is_RequestPty ev = False"

text \<open>The calls that change the mode of the local terminal.\<close>

fun changes_terminal_mode :: "event \<Rightarrow> bool" where
  "changes_terminal_mode Ev_MakeRaw = True"
| "changes_terminal_mode (Ev_Restore st) = True"
| "changes_terminal_mode ev = False"

section \<open>The runner\<close>

record Runner =
  script :: Script
  command :: string
  client :: "ssh_Client option"
  session :: "ssh_Session option"
  running :: bool
  exitCode :: int

type_synonym op_result = "(Runner \<times> ret_error option \<times> event list) outcome"

subsection \<open>SetStdoutWriter, SetStderrWriter, StdoutPipe, StderrPipe\<close>

definition SetStdoutWriter :: "Runner \<Rightarrow> stream \<Rightarrow> Runner outcome" where
  "SetStdoutWriter r stdout =
     (case session r of
        None \<Rightarrow> Panic
      | Some sess \<Rightarrow> Return (r\<lparr>session := Some (sess\<lparr>Stdout := Some stdout\<rparr>)\<rparr>))"

definition SetStderrWriter :: "Runner \<Rightarrow> stream \<Rightarrow> Runner outcome" where
  "SetStderrWriter r stderr =
     (case session r of
        None \<Rightarrow> Panic
      | Some sess \<Rightarrow> Return (r\<lparr>session := Some (sess\<lparr>Stderr := Some stderr\<rparr>)\<rparr>))"

text \<open>
  \<open>pipe\<close> is what \<^verbatim>\<open>r.session.StdoutPipe()\<close> returns: an error, or a reader (a number).
  The result carries the reader the runner returns, if any.
\<close>

definition StdoutPipe ::
  "Runner \<Rightarrow> go_error + nat \<Rightarrow> (Runner \<times> nat option \<times> ret_error option \<times> event list) outcome" where
  "StdoutPipe r pipe =
     (case session r of
        None \<Rightarrow> Panic
      | Some sess \<Rightarrow>
          (case pipe of
             Inl e \<Rightarrow>
               Return (r\<lparr>exitCode := - 1\<rparr>, None,
                 Some (Envelope \<lparr>Error.script = script r, command = [], exitCode = - 1,
                   err = fmt_Errorf ''[golang-exec/runner/ssh/StdoutPipe()] cannot create stdout reader: '' e\<rparr>),
                 [Ev_StdoutPipe])
           | Inr reader \<Rightarrow> Return (r, Some reader, None, [Ev_StdoutPipe])))"

definition StderrPipe ::
  "Runner \<Rightarrow> go_error + nat \<Rightarrow> (Runner \<times> nat option \<times> ret_error option \<times> event list) outcome" where
  "StderrPipe r pipe =
     (case session r of
        None \<Rightarrow> Panic
      | Some sess \<Rightarrow>
          (case pipe of
             Inl e \<Rightarrow>
               Return (r\<lparr>exitCode := - 1\<rparr>, None,
                 Some (Envelope \<lparr>Error.script = script r, command = [], exitCode = - 1,
                   err = fmt_Errorf ''[golang-exec/runner/ssh/StderrPipe()] cannot create stderr reader: '' e\<rparr>),
                 [Ev_StderrPipe])
           | Inr reader \<Rightarrow> Return (r, Some reader, None, [Ev_StderrPipe])))"

subsection \<open>Run\<close>

text \<open>The local variable \<^verbatim>\<open>modes\<close> of \<^verbatim>\<open>Run\<close>, in the order of the map literal.\<close>

definition modes :: TerminalModes where
  "modes = [(ECHOCTL, 0), (ECHO, 1), (TTY_OP_ISPEED, 14400), (TTY_OP_OSPEED, 14400)]"

text \<open>
  What the collaborators answer during one call of \<^verbatim>\<open>Run\<close>: whether the descriptor of
  \<^verbatim>\<open>os.Stdin\<close> is a terminal, the result of \<^verbatim>\<open>terminal.MakeRaw\<close> (the saved state),
  of \<^verbatim>\<open>terminal.GetSize\<close> (width, height), of \<^verbatim>\<open>session.RequestPty\<close> and of
  \<^verbatim>\<open>session.Run\<close>.
\<close>

record Run_env =
  IsTerminal :: bool
  MakeRaw :: "go_error + terminal_State"
  GetSize :: "go_error + int \<times> int"
  RequestPty :: "go_error option"
  session_Run :: "go_error option"

text \<open>
  Lines 264 to 272, after \<^verbatim>\<open>MakeRaw\<close> has succeeded: the error the block returns early
  with, if any, and the calls made.
\<close>

definition Run_pty :: "Run_env \<Rightarrow> go_error option \<times> event list" where
  "Run_pty env =
     (case GetSize env of
        Inl e \<Rightarrow> (Some e, [Ev_GetSize])
      | Inr (termWidth, termHeight) \<Rightarrow>
          (RequestPty env,
           [Ev_GetSize, Ev_RequestPty ''xterm-256color'' termHeight termWidth modes]))"

text \<open>Lines 275 to 299: running the command and classifying its result.\<close>

definition Run_command :: "Runner \<Rightarrow> go_error option \<Rightarrow> Runner \<times> ret_error option" where
  "Run_command r res =
     (case res of
        Some e \<Rightarrow>
          (case errors_As_ExitError e of
             Some status \<Rightarrow>
               (r\<lparr>exitCode := status\<rparr>,
                Some (Envelope \<lparr>Error.script = script r, command = command r, exitCode = status,
                  err = fmt_Errorf ''[golang-exec/runner/ssh/Run()] runner failed: '' e\<rparr>))
           | None \<Rightarrow>
               (r\<lparr>exitCode := - 1\<rparr>,
                Some (Envelope \<lparr>Error.script = script r, command = command r, exitCode = - 1,
                  err = fmt_Errorf ''[golang-exec/runner/ssh/Run()] cannot execute runner: '' e\<rparr>)))
      | None \<Rightarrow> (r\<lparr>exitCode := 0\<rparr>, None))"

definition Run_command_events :: "Runner \<Rightarrow> event list" where
  "Run_command_events r =
     [Ev_Printf (''Running command: '' @ command r), Ev_session_Run (command r)]"

text \<open>
  The deferred \<^verbatim>\<open>terminal.Restore\<close> is registered once \<^verbatim>\<open>MakeRaw\<close> has succeeded and runs
  last on every return after that; the error it returns is dropped.
\<close>

definition Run :: "Runner \<Rightarrow> Run_env \<Rightarrow> op_result" where
  "Run r env =
     (case session r of
        None \<Rightarrow> Panic
      | Some sess \<Rightarrow>
          (let r1 = r\<lparr>session := Some (sess\<lparr>Stdin := Some os_Stdin\<rparr>)\<rparr> in
           if IsTerminal env then
             (case MakeRaw env of
                Inl e \<Rightarrow> Return (r1, Some (Bare e), [Ev_IsTerminal, Ev_MakeRaw])
              | Inr originalState \<Rightarrow>
                  (case Run_pty env of
                     (Some e, evs) \<Rightarrow>
                       Return (r1, Some (Bare e),
                         [Ev_IsTerminal, Ev_MakeRaw] @ evs @ [Ev_Restore originalState])
                   | (None, evs) \<Rightarrow>
                       (case Run_command r1 (session_Run env) of
                          (r2, e) \<Rightarrow>
                            Return (r2, e,
                              [Ev_IsTerminal, Ev_MakeRaw] @ evs @ Run_command_events r1
                              @ [Ev_Restore originalState]))))
           else
             (case Run_command r1 (session_Run env) of
                (r2, e) \<Rightarrow> Return (r2, e, [Ev_IsTerminal] @ Run_command_events r1))))"

subsection \<open>Start, Wait, Close, ExitCode\<close>

text \<open>\<open>res\<close> is what \<^verbatim>\<open>r.session.Start(r.command)\<close> returns.\<close>

definition Start :: "Runner \<Rightarrow> go_error option \<Rightarrow> op_result" where
  "Start r res =
     (case session r of
        None \<Rightarrow> Panic
      | Some sess \<Rightarrow>
          (case res of
             Some e \<Rightarrow>
               Return (r\<lparr>exitCode := - 1\<rparr>,
                 Some (Envelope \<lparr>Error.script = script r, command = command r, exitCode = - 1,
                   err = fmt_Errorf ''[golang-exec/runner/ssh/Start()] cannot start runner: '' e\<rparr>),
                 [Ev_session_Start (command r)])
           | None \<Rightarrow> Return (r\<lparr>running := True\<rparr>, None, [Ev_session_Start (command r)])))"

text \<open>\<open>res\<close> is what \<^verbatim>\<open>r.session.Wait()\<close> returns.\<close>

definition Wait :: "Runner \<Rightarrow> go_error option \<Rightarrow> op_result" where
  "Wait r res =
     (case session r of
        None \<Rightarrow> Panic
      | Some sess \<Rightarrow>
          (let r1 = r\<lparr>running := False\<rparr> in
           case res of
             Some e \<Rightarrow>
               (let r2 = (case errors_As_ExitError e of
                            Some status \<Rightarrow> r1\<lparr>exitCode := status\<rparr>
                          | None \<Rightarrow> r1\<lparr>exitCode := - 1\<rparr>)
                in Return (r2,
                     Some (Envelope \<lparr>Error.script = script r2, command = command r2,
                       exitCode = exitCode r2,
                       err = fmt_Errorf ''[golang-exec/runner/ssh/Wait()] runner failed: '' e\<rparr>),
                     [Ev_session_Wait]))
           | None \<Rightarrow> Return (r1\<lparr>exitCode := 0\<rparr>, None, [Ev_session_Wait])))"

text \<open>
  What \<^verbatim>\<open>session.Signal\<close>, \<^verbatim>\<open>session.Close\<close> and \<^verbatim>\<open>client.Close\<close> return during one call
  of \<^verbatim>\<open>Close\<close>. The code assigns the first two to the blank identifier and ignores the
  third.
\<close>

record Close_env =
  Signal_result :: "go_error option"
  session_Close :: "go_error option"
  client_Close :: "go_error option"

text \<open>
  The receiver of \<^verbatim>\<open>Close\<close> is the pointer \<^verbatim>\<open>*Runner\<close> that \<open>New\<close> returned, which is nil
  (\<open>None\<close>) after a failed construction. \<^verbatim>\<open>Close\<close> first reads \<^verbatim>\<open>r.running\<close> through the
  receiver, which panics on a nil receiver; the two guards against nil that follow
  protect the channel and the client only. Signalling through a nil session panics too.
  The other methods are modelled on the runner a non-nil pointer refers to.
\<close>

definition Close :: "Runner option \<Rightarrow> Close_env \<Rightarrow> op_result" where
  "Close p env =
     (case p of
        None \<Rightarrow> Panic
      | Some r \<Rightarrow>
          if running r \<and> session r = None then Panic
          else Return (r, None,
            (if running r then [Ev_Signal SIGTERM] else [])
            @ (if session r \<noteq> None then [Ev_session_Close] else [])
            @ (if client r \<noteq> None then [Ev_client_Close] else [])))"

definition ExitCode :: "Runner \<Rightarrow> int" where
  "ExitCode r = exitCode r"

section \<open>Connection descriptors\<close>

subsection \<open>Library functions that toConnection calls\<close>

text \<open>
  Strings are byte sequences. The functions of this subsection belong to the Go standard
  library; they are written after the library's documented behaviour.
\<close>

definition is_digit :: "char \<Rightarrow> bool" where
  "is_digit c = (48 \<le> (of_char c :: nat) \<and> (of_char c :: nat) \<le> 57)"

definition digit_val :: "char \<Rightarrow> nat" where
  "digit_val c = of_char c - 48"

text \<open>
  The loop of \<^verbatim>\<open>strconv.ParseUint\<close> for base 10: \<open>n\<close> is the value read so far. A byte
  that is not a decimal digit is a syntax error, a value above \<open>maxVal\<close> a range error;
  both are \<open>None\<close>, since the caller only tests the error against nil.
\<close>

fun ParseUint_loop :: "nat \<Rightarrow> nat \<Rightarrow> string \<Rightarrow> nat option" where
  "ParseUint_loop maxVal n [] = Some n"
| "ParseUint_loop maxVal n (c # cs) =
     (if is_digit c
      then (if n * 10 + digit_val c > maxVal then None
            else ParseUint_loop maxVal (n * 10 + digit_val c) cs)
      else None)"

text \<open>
  \<^verbatim>\<open>strconv.ParseUint(s, 10, bitSize)\<close> for a bit size from 1 to 64. The empty string is a
  syntax error; a sign, a space or an underscore is not accepted.
\<close>

definition ParseUint10 :: "string \<Rightarrow> nat \<Rightarrow> nat option" where
  "ParseUint10 s bitSize =
     (if s = [] then None else ParseUint_loop (2 ^ bitSize - 1) 0 s)"

text \<open>
  \<^verbatim>\<open>strings.ToLower\<close> on the bytes of ASCII. A byte outside ASCII is left as it is;
  Go maps such runes too, but never to a byte of ASCII that \<open>ParseBool\<close> accepts, so the
  result of \<open>ParseBool\<close> on the lowered string is the same.
\<close>

definition ToLower_byte :: "char \<Rightarrow> char" where
  "ToLower_byte c =
     (if 65 \<le> (of_char c :: nat) \<and> (of_char c :: nat) \<le> 90
      then char_of ((of_char c :: nat) + 32) else c)"

definition ToLower :: "string \<Rightarrow> string" where
  "ToLower s = map ToLower_byte s"

text \<open>\<^verbatim>\<open>strconv.ParseBool\<close>: \<open>None\<close> is the syntax error.\<close>

definition ParseBool :: "string \<Rightarrow> bool option" where
  "ParseBool str =
     (if str = ''1'' \<or> str = ''t'' \<or> str = ''T'' \<or> str = ''true'' \<or> str = ''TRUE'' \<or> str = ''True''
      then Some True
      else if str = ''0'' \<or> str = ''f'' \<or> str = ''F'' \<or> str = ''false'' \<or> str = ''FALSE''
        \<or> str = ''False''
      then Some False
      else None)"

text \<open>The verb \<^verbatim>\<open>%d\<close> of \<^verbatim>\<open>fmt\<close> on an unsigned number.\<close>

fun decimal :: "nat \<Rightarrow> string" where
  "decimal n =
     (if n < 10 then [char_of (48 + n)]
      else decimal (n div 10) @ [char_of (48 + n mod 10)])"

declare decimal.simps [simp del]

subsection \<open>Reflection\<close>

text \<open>
  A \<^verbatim>\<open>reflect.Value\<close>, as far as \<open>toConnection\<close> can observe it: the zero Value (what
  \<^verbatim>\<open>FieldByName\<close> returns for a field the struct does not have), a value of kind String,
  of an unsigned integer kind (as \<^verbatim>\<open>Uint()\<close> returns it) or of kind Bool, or a value of any
  other kind. The string is the name of the value's type. \<^verbatim>\<open>String()\<close> never panics;
  \<^verbatim>\<open>Uint()\<close> and \<^verbatim>\<open>Bool()\<close> panic on a value of another kind.
\<close>

datatype rvalue =
    R_Invalid
  | R_String string
  | R_Uint string uint64
  | R_Bool string bool
  | R_Other string

fun rvalue_String :: "rvalue \<Rightarrow> string" where
  "rvalue_String R_Invalid = ''<invalid Value>''"
| "rvalue_String (R_String s) = s"
| "rvalue_String (R_Uint T u) = ''<'' @ T @ '' Value>''"
| "rvalue_String (R_Bool T b) = ''<'' @ T @ '' Value>''"
| "rvalue_String (R_Other T) = ''<'' @ T @ '' Value>''"

fun rvalue_Uint :: "rvalue \<Rightarrow> uint64 outcome" where
  "rvalue_Uint (R_Uint T u) = Return u"
| "rvalue_Uint v = Panic"

fun rvalue_Bool :: "rvalue \<Rightarrow> bool outcome" where
  "rvalue_Bool (R_Bool T b) = Return b"
| "rvalue_Bool v = Panic"

text \<open>
  The argument \<^verbatim>\<open>connection interface{}\<close> after \<^verbatim>\<open>reflect.Indirect(reflect.ValueOf(connection))\<close>:
  a struct with its fields by name, a map from strings to strings with its entries in
  the order the iteration visits them (the keys of a map are distinct), or a value of
  any other kind.
\<close>

datatype descriptor =
    Struct_value "(string \<times> rvalue) list"
  | Map_value "(string \<times> string) list"
  | Other_value

definition FieldByName :: "(string \<times> rvalue) list \<Rightarrow> string \<Rightarrow> rvalue" where
  "FieldByName flds name = (case map_of flds name of Some v \<Rightarrow> v | None \<Rightarrow> R_Invalid)"

subsection \<open>toConnection\<close>

text \<open>\<^verbatim>\<open>new(Connection)\<close>: every field has its zero value.\<close>

definition new_Connection :: Connection where
  "new_Connection =
     \<lparr>Type = [], Host = [], Port = 0, User = [], Password = [], Insecure = False\<rparr>"

text \<open>The body of the loop over the map: the switch on the key of one entry.\<close>

definition toConnection_entry :: "Connection \<Rightarrow> string \<times> string \<Rightarrow> Connection" where
  "toConnection_entry c kv =
     (case kv of (key, val) \<Rightarrow>
        if key = ''Type'' then c\<lparr>Type := val\<rparr>
        else if key = ''Host'' then c\<lparr>Host := val\<rparr>
        else if key = ''Port'' then
          c\<lparr>Port := (case ParseUint10 val 16 of Some p \<Rightarrow> of_nat p | None \<Rightarrow> 0)\<rparr>
        else if key = ''User'' then c\<lparr>Connection.User := val\<rparr>
        else if key = ''Password'' then c\<lparr>Password := val\<rparr>
        else if key = ''Insecure'' then
          c\<lparr>Insecure := (case ParseBool (ToLower val) of Some b \<Rightarrow> b | None \<Rightarrow> False)\<rparr>
        else c)"

fun toConnection :: "descriptor \<Rightarrow> Connection outcome" where
  "toConnection (Struct_value flds) =
     (case rvalue_Uint (FieldByName flds ''Port'') of
        Panic \<Rightarrow> Panic
      | Return p \<Rightarrow>
          (case rvalue_Bool (FieldByName flds ''Insecure'') of
             Panic \<Rightarrow> Panic
           | Return b \<Rightarrow>
               Return \<lparr>Type = rvalue_String (FieldByName flds ''Type''),
                 Host = rvalue_String (FieldByName flds ''Host''),
                 Port = ucast p,
                 User = rvalue_String (FieldByName flds ''User''),
                 Password = rvalue_String (FieldByName flds ''Password''),
                 Insecure = b\<rparr>))"
| "toConnection (Map_value kvs) = Return (foldl toConnection_entry new_Connection kvs)"
| "toConnection Other_value = Return new_Connection"

section \<open>New\<close>

text \<open>
  What the collaborators answer during one call of \<open>New\<close>: \<^verbatim>\<open>s.NewReader(arguments)\<close> (an
  error or a reader), \<^verbatim>\<open>ioutil.ReadAll\<close> on that reader (the bytes read and an error or
  nil), \<^verbatim>\<open>homedir.Expand\<close> (the path of the known-hosts file), \<^verbatim>\<open>knownhosts.New\<close>,
  \<^verbatim>\<open>ssh.Dial\<close> (the client) and \<^verbatim>\<open>client.NewSession\<close>.
\<close>

record New_env =
  NewReader :: "go_error option"
  ReadAll :: "string \<times> go_error option"
  homedir_Expand :: "go_error + string"
  knownhosts_New :: "go_error option"
  ssh_Dial :: "go_error + ssh_Client"
  NewSession :: "go_error option"

text \<open>The error every failing path of \<open>New\<close> builds: no command text, exit code -1.\<close>

definition New_Error :: "Script \<Rightarrow> string \<Rightarrow> go_error \<Rightarrow> ret_error" where
  "New_Error s format e =
     Envelope \<lparr>Error.script = s, command = [], exitCode = - 1, err = fmt_Errorf format e\<rparr>"

text \<open>
  Lines 100 to 121: the host-key callback of the client configuration. The result is the
  error \<open>New\<close> returns with, or the callback, and the calls made.
\<close>

definition New_HostKeyCallback ::
  "Script \<Rightarrow> Connection \<Rightarrow> New_env \<Rightarrow> (ret_error + HostKeyCallback) \<times> event list" where
  "New_HostKeyCallback s c env =
     (if Insecure c then (Inr ssh_InsecureIgnoreHostKey, [])
      else
        (case homedir_Expand env of
           Inl e \<Rightarrow>
             (Inl (New_Error s
                ''[golang-exec/runner/ssh/New()] cannot find home directory of current user: '' e),
              [Ev_homedir_Expand ''~/.ssh/known_hosts''])
         | Inr f \<Rightarrow>
             (case knownhosts_New env of
                Some e \<Rightarrow>
                  (Inl (New_Error s
                     ''[golang-exec/runner/ssh/New()] cannot access 'known_hosts'-file: '' e),
                   [Ev_homedir_Expand ''~/.ssh/known_hosts'', Ev_knownhosts_New f])
              | None \<Rightarrow>
                  (Inr (knownhosts_callback f),
                   [Ev_homedir_Expand ''~/.ssh/known_hosts'', Ev_knownhosts_New f]))))"

text \<open>
  The argument \<^verbatim>\<open>arguments\<close> is only handed to \<^verbatim>\<open>s.NewReader\<close>, whose answer is in \<open>env\<close>.
  The result is the runner (or nil), the error (or nil) and the calls made.
\<close>

definition New ::
  "descriptor \<Rightarrow> Script \<Rightarrow> New_env \<Rightarrow> (Runner option \<times> ret_error option \<times> event list) outcome" where
  "New connection s env =
     (case Error s of
        Some e \<Rightarrow>
          Return (None,
            Some (New_Error s ''[golang-exec/runner/ssh/New()] script failed to parse: '' e), [])
      | None \<Rightarrow>
          (case NewReader env of
             Some e \<Rightarrow>
               Return (None,
                 Some (New_Error s ''[golang-exec/runner/ssh/New()] cannot create stdin reader: '' e),
                 [Ev_NewReader])
           | None \<Rightarrow>
               (let script_text = (case ReadAll env of (b, None) \<Rightarrow> b | (b, Some e) \<Rightarrow> [])
                in case toConnection connection of
                  Panic \<Rightarrow> Panic
                | Return c \<Rightarrow>
                    (let r = \<lparr>script = s, command = Command s @ script_text, client = None,
                               session = None, running = False, exitCode = 0\<rparr>;
                         address = Host c @ '':'' @ decimal (unat (Port c))
                     in case New_HostKeyCallback s c env of
                       (Inl e, evs) \<Rightarrow> Return (None, Some e, [Ev_NewReader, Ev_ReadAll] @ evs)
                     | (Inr callback, evs) \<Rightarrow>
                         (let config = \<lparr>User = Connection.User c,
                                Auth = [ssh_Password (Password c)],
                                HostKeyCallback = Some callback\<rparr>;
                              dial = [Ev_NewReader, Ev_ReadAll] @ evs
                                @ [Ev_Dial ''tcp'' address config]
                          in case ssh_Dial env of
                            Inl e \<Rightarrow>
                              Return (None,
                                Some (New_Error s
                                  ''[golang-exec/runner/ssh/New()] cannot dial host: '' e), dial)
                          | Inr cl \<Rightarrow>
                              (case NewSession env of
                                 Some e \<Rightarrow>
                                   Return (None,
                                     Some (New_Error s
                                       ''[golang-exec/runner/ssh/New()] cannot open session: '' e),
                                     dial @ [Ev_NewSession])
                               | None \<Rightarrow>
                                   Return (Some (r\<lparr>client := Some cl,
                                       session := Some \<lparr>Stdin = None, Stdout = None,
                                         Stderr = None\<rparr>\<rparr>),
                                     None, dial @ [Ev_NewSession])))))))"

section \<open>Predicates on results\<close>

text \<open>An error result that is nil or a pointer to an \<open>Error\<close> of this package.\<close>

definition envelope_or_nil :: "ret_error option \<Rightarrow> bool" where
  "envelope_or_nil eo = (case eo of None \<Rightarrow> True | Some e \<Rightarrow> is_Envelope e)"

fun is_Dial :: "event \<Rightarrow> bool" where
  "is_Dial (Ev_Dial network address config) = True"
| "is_Dial ev = False"

text \<open>
  One of the steps of a construction fails: the script carries a parse error, the reader
  for the rendered script cannot be created, the known-hosts file cannot be located or
  loaded (asked for only when the connection is not insecure), the dial fails, or the
  channel cannot be opened.
\<close>

definition New_fails :: "descriptor \<Rightarrow> Script \<Rightarrow> New_env \<Rightarrow> bool" where
  "New_fails connection s env =
     (Error s \<noteq> None \<or> NewReader env \<noteq> None \<or>
      (case toConnection connection of
         Panic \<Rightarrow> False
       | Return c \<Rightarrow> \<not> Insecure c \<and> (isl (homedir_Expand env) \<or> knownhosts_New env \<noteq> None)) \<or>
      isl (ssh_Dial env) \<or> NewSession env \<noteq> None)"

text \<open>The three calls of the terminal block of \<open>Run\<close> all succeed.\<close>

definition pty_ok :: "Run_env \<Rightarrow> bool" where
  "pty_ok env =
     (case MakeRaw env of
        Inl e \<Rightarrow> False
      | Inr st \<Rightarrow> (case GetSize env of Inl e \<Rightarrow> False | Inr sz \<Rightarrow> RequestPty env = None))"

section \<open>Sequences of calls on one runner\<close>

text \<open>
  A caller's use of a runner between two points of its life: the methods it calls, each
  with its argument or with what the collaborators answer during the call.
\<close>

datatype call =
    Call_SetStdoutWriter stream
  | Call_SetStderrWriter stream
  | Call_StdoutPipe "go_error + nat"
  | Call_StderrPipe "go_error + nat"
  | Call_Run Run_env
  | Call_Start "go_error option"
  | Call_Wait "go_error option"
  | Call_Close Close_env
  | Call_ExitCode

fun is_Wait :: "call \<Rightarrow> bool" where
  "is_Wait (Call_Wait res) = True"
| "is_Wait c = False"

text \<open>The runner after one call; a panic ends the sequence.\<close>

fun exec_call :: "Runner \<Rightarrow> call \<Rightarrow> Runner outcome" where
  "exec_call r (Call_SetStdoutWriter w) = SetStdoutWriter r w"
| "exec_call r (Call_SetStderrWriter w) = SetStderrWriter r w"
| "exec_call r (Call_StdoutPipe pipe) =
     (case StdoutPipe r pipe of Panic \<Rightarrow> Panic | Return (r', reader, e, tr) \<Rightarrow> Return r')"
| "exec_call r (Call_StderrPipe pipe) =
     (case StderrPipe r pipe of Panic \<Rightarrow> Panic | Return (r', reader, e, tr) \<Rightarrow> Return r')"
| "exec_call r (Call_Run env) =
     (case Run r env of Panic \<Rightarrow> Panic | Return (r', e, tr) \<Rightarrow> Return r')"
| "exec_call r (Call_Start res) =
     (case Start r res of Panic \<Rightarrow> Panic | Return (r', e, tr) \<Rightarrow> Return r')"
| "exec_call r (Call_Wait res) =
     (case Wait r res of Panic \<Rightarrow> Panic | Return (r', e, tr) \<Rightarrow> Return r')"
| "exec_call r (Call_Close env) =
     (case Close (Some r) env of Panic \<Rightarrow> Panic | Return (r', e, tr) \<Rightarrow> Return r')"
| "exec_call r Call_ExitCode = Return r"

fun exec_calls :: "Runner \<Rightarrow> call list \<Rightarrow> Runner outcome" where
  "exec_calls r [] = Return r"
| "exec_calls r (c # cs) =
     (case exec_call r c of Panic \<Rightarrow> Panic | Return r' \<Rightarrow> exec_calls r' cs)"

section \<open>What a descriptor denotes\<close>

text \<open>
  The reading of a map-form descriptor that the specification gives, stated without the
  parsing functions: the value of a string of decimal digits, the port it stands for (0
  unless it is a non-empty digit string with a value that fits 16 bits), and the boolean
  a string stands for (true for a spelling of true in any case, false otherwise).
\<close>

definition digits_value :: "string \<Rightarrow> nat" where
  "digits_value s = foldl (\<lambda>n c. n * 10 + digit_val c) 0 s"

definition denotes_uint :: "string \<Rightarrow> nat \<Rightarrow> bool" where
  "denotes_uint s n = (s \<noteq> [] \<and> list_all is_digit s \<and> digits_value s = n)"

definition port_of_string :: "string \<Rightarrow> uint16" where
  "port_of_string v =
     (if v \<noteq> [] \<and> list_all is_digit v \<and> digits_value v < 65536
      then of_nat (digits_value v) else 0)"

definition bool_of_string :: "string \<Rightarrow> bool" where
  "bool_of_string v = (ToLower v = ''1'' \<or> ToLower v = ''t'' \<or> ToLower v = ''true'')"

definition denotes_bool :: "string \<Rightarrow> bool \<Rightarrow> bool" where
  "denotes_bool v i =
     (if i then ToLower v = ''true'' \<or> ToLower v = ''t'' \<or> ToLower v = ''1''
      else ToLower v = ''false'' \<or> ToLower v = ''f'' \<or> ToLower v = ''0'')"

definition field_names :: "string list" where
  "field_names = [''Type'', ''Host'', ''Port'', ''User'', ''Password'', ''Insecure'']"

text \<open>
  A struct-form and a map-form descriptor that carry the logical values of a canonical
  connection \<open>c\<close>: the struct has the six fields, of kind String, of an unsigned integer
  kind and of kind Bool, with the values of \<open>c\<close>; the map has the six keys, the port as a
  string of decimal digits that denotes the port of \<open>c\<close>, and the flag as a spelling of
  the flag of \<open>c\<close>.
\<close>

definition struct_carries :: "(string \<times> rvalue) list \<Rightarrow> Connection \<Rightarrow> bool" where
  "struct_carries flds c =
     (FieldByName flds ''Type'' = R_String (Type c) \<and>
      FieldByName flds ''Host'' = R_String (Host c) \<and>
      (case FieldByName flds ''Port'' of R_Uint T w \<Rightarrow> unat w = unat (Port c) | _ \<Rightarrow> False) \<and>
      FieldByName flds ''User'' = R_String (Connection.User c) \<and>
      FieldByName flds ''Password'' = R_String (Password c) \<and>
      (case FieldByName flds ''Insecure'' of R_Bool T b \<Rightarrow> b = Insecure c | _ \<Rightarrow> False))"

definition map_carries :: "(string \<times> string) list \<Rightarrow> Connection \<Rightarrow> bool" where
  "map_carries kvs c =
     (map_of kvs ''Type'' = Some (Type c) \<and> map_of kvs ''Host'' = Some (Host c) \<and>
      (case map_of kvs ''Port'' of Some v \<Rightarrow> denotes_uint v (unat (Port c)) | None \<Rightarrow> False) \<and>
      map_of kvs ''User'' = Some (Connection.User c) \<and>
      map_of kvs ''Password'' = Some (Password c) \<and>
      (case map_of kvs ''Insecure'' of Some v \<Rightarrow> denotes_bool v (Insecure c) | None \<Rightarrow> False))"

section \<open>Concrete descriptors\<close>

definition map_example :: "(string \<times> string) list" where
  "map_example = [(''Host'', ''example.org''), (''Port'', ''22''), (''Insecure'', ''TRUE''),
     (''Shell'', ''bash''), (''User'', ''root'')]"

definition map_unparsable :: "(string \<times> string) list" where
  "map_unparsable = [(''Timeout'', ''30''), (''Port'', ''65536''), (''Insecure'', ''yes'')]"

definition same_connection :: Connection where
  "same_connection = \<lparr>Type = ''ssh'', Host = ''example.org'', Port = 22, User = ''root'',
     Password = ''secret'', Insecure = True\<rparr>"

definition struct_same :: "(string \<times> rvalue) list" where
  "struct_same = [(''Type'', R_String ''ssh''), (''Host'', R_String ''example.org''),
     (''Port'', R_Uint ''uint16'' 22), (''User'', R_String ''root''),
     (''Password'', R_String ''secret''), (''Insecure'', R_Bool ''bool'' True)]"

definition map_same :: "(string \<times> string) list" where
  "map_same = [(''Insecure'', ''True''), (''Password'', ''secret''), (''Port'', ''22''),
     (''User'', ''root''), (''Type'', ''ssh''), (''Host'', ''example.org'')]"

text \<open>A struct whose port field is 32 bits wide and holds 70000, and the map with the same digits.\<close>

definition struct_wide :: "(string \<times> rvalue) list" where
  "struct_wide = [(''Type'', R_String ''ssh''), (''Host'', R_String ''example.org''),
     (''Port'', R_Uint ''uint32'' 70000), (''User'', R_String ''root''),
     (''Password'', R_String ''secret''), (''Insecure'', R_Bool ''bool'' True)]"

definition map_wide :: "(string \<times> string) list" where
  "map_wide = [(''Type'', ''ssh''), (''Host'', ''example.org''), (''Port'', ''70000''),
     (''User'', ''root''), (''Password'', ''secret''), (''Insecure'', ''true'')]"

section \<open>Concrete sessions\<close>

text \<open>A script that parsed, a freshly opened channel and the runner \<open>New\<close> builds from them.\<close>

definition example_script :: Script where
  "example_script = \<lparr>Name = ''hello'', Error = None, Command = ''sh -s ''\<rparr>"

definition fresh_session :: ssh_Session where
  "fresh_session = \<lparr>Stdin = None, Stdout = None, Stderr = None\<rparr>"

definition example_runner :: Runner where
  "example_runner = \<lparr>script = example_script, command = ''sh -s echo hi'', client = Some 1,
     session = Some fresh_session, running = False, exitCode = 0\<rparr>"

text \<open>Standard input is a pipe; the remote process exits with status 3.\<close>

definition env_batch :: Run_env where
  "env_batch = \<lparr>IsTerminal = False, MakeRaw = Inr 0, GetSize = Inr (80, 24),
     RequestPty = None, session_Run = Some (ExitError 3)\<rparr>"

text \<open>
  Standard input is a terminal of 80 columns and 24 lines that enters raw mode; in
  \<open>env_pty_rejected\<close> the server then refuses the pseudo-terminal request, in
  \<open>env_terminal\<close> it grants the request and the remote process exits with status 0; in
  \<open>env_raw_fails\<close> the terminal cannot even enter raw mode.
\<close>

definition env_pty_rejected :: Run_env where
  "env_pty_rejected = \<lparr>IsTerminal = True, MakeRaw = Inr 7, GetSize = Inr (80, 24),
     RequestPty = Some (OtherError ''ssh: pty-req failed''), session_Run = None\<rparr>"

definition env_terminal :: Run_env where
  "env_terminal = \<lparr>IsTerminal = True, MakeRaw = Inr 7, GetSize = Inr (80, 24),
     RequestPty = None, session_Run = None\<rparr>"

definition env_raw_fails :: Run_env where
  "env_raw_fails = \<lparr>IsTerminal = True, MakeRaw = Inl (OtherError ''inappropriate ioctl for device''),
     GetSize = Inr (80, 24), RequestPty = None, session_Run = None\<rparr>"

text \<open>The runner after \<open>Start\<close> has succeeded on \<open>example_runner\<close>.\<close>

definition started_runner :: Runner where
  "started_runner = example_runner\<lparr>running := True\<rparr>"

definition close_env_ok :: Close_env where
  "close_env_ok = \<lparr>Signal_result = None, session_Close = None, client_Close = None\<rparr>"

definition close_env_failing :: Close_env where
  "close_env_failing = \<lparr>Signal_result = Some (OtherError ''EOF''),
     session_Close = Some (OtherError ''EOF''),
     client_Close = Some (OtherError ''use of closed network connection'')\<rparr>"

text \<open>
  A life of \<open>example_runner\<close> before a last \<open>Close\<close>: a \<open>Run\<close> that fails, a \<open>Start\<close>
  that succeeds and is never waited for, and a first \<open>Close\<close>; and the runner it leaves.
\<close>

definition calls_before_close :: "call list" where
  "calls_before_close =
     [Call_Run env_pty_rejected, Call_Start None, Call_Close close_env_failing]"

definition runner_before_close :: Runner where
  "runner_before_close =
     example_runner\<lparr>session := Some (fresh_session\<lparr>Stdin := Some os_Stdin\<rparr>), running := True\<rparr>"

text \<open>
  Calls a caller may make between \<open>Start\<close> and \<open>Wait\<close>, and the runner they leave when
  they begin at \<open>started_runner\<close>.
\<close>

definition calls_between :: "call list" where
  "calls_between = [Call_SetStdoutWriter (Writer 1),
     Call_StderrPipe (Inl (OtherError ''ssh: Stderr already set'')),
     Call_ExitCode, Call_Start (Some (OtherError ''ssh: session already started'')),
     Call_Run env_batch, Call_Close close_env_ok]"

definition runner_between :: Runner where
  "runner_between =
     started_runner\<lparr>session := Some \<lparr>Stdin = Some os_Stdin, Stdout = Some (Writer 1), Stderr = None\<rparr>,
       exitCode := 3\<rparr>"

section \<open>Concrete constructions\<close>

text \<open>
  A script whose template did not parse; collaborators that all succeed; the same with a
  refused dial; the same with a rendered body whose read fails after four bytes.
\<close>

definition broken_script :: Script where
  "broken_script = \<lparr>Name = ''broken'', Error = Some (OtherError ''template: unexpected EOF''),
     Command = ''sh -s ''\<rparr>"

definition new_env_ok :: New_env where
  "new_env_ok = \<lparr>NewReader = None, ReadAll = (''echo hi'', None),
     homedir_Expand = Inr ''/root/.ssh/known_hosts'', knownhosts_New = None,
     ssh_Dial = Inr 1, NewSession = None\<rparr>"

definition new_env_refused :: New_env where
  "new_env_refused = new_env_ok\<lparr>ssh_Dial := Inl (OtherError ''connection refused'')\<rparr>"

definition new_env_read_fails :: New_env where
  "new_env_read_fails =
     new_env_ok\<lparr>ReadAll := (''echo'', Some (OtherError ''unexpected EOF''))\<rparr>"

definition runner_empty_body :: Runner where
  "runner_empty_body = example_runner\<lparr>command := ''sh -s ''\<rparr>"

definition example_dial :: "event list" where
  "example_dial = [Ev_NewReader, Ev_ReadAll,
     Ev_Dial ''tcp'' ''example.org:22''
       \<lparr>User = ''root'', Auth = [ssh_Password []],
        HostKeyCallback = Some ssh_InsecureIgnoreHostKey\<rparr>]"

definition refused_error :: ret_error where
  "refused_error = Envelope \<lparr>Error.script = example_script, command = [], exitCode = - 1,
     err = Wrapped ''[golang-exec/runner/ssh/New()] cannot dial host: ''
       (OtherError ''connection refused'')\<rparr>"

section \<open>Run without a terminal\<close>

text \<open>
  Claim C9. Whenever standard input is not a terminal, every call of \<open>Run\<close> that returns
  has made no pseudo-terminal request and no call that changes the mode of the local
  terminal (neither \<^verbatim>\<open>MakeRaw\<close> nor \<^verbatim>\<open>Restore\<close>).
\<close>

theorem Run_not_terminal:
  assumes "\<not> IsTerminal env" and "Run r env = Return (r', e, tr)"
  shows "list_all (\<lambda>ev. \<not> is_RequestPty ev \<and> \<not> changes_terminal_mode ev) tr"
  using assms
  by (auto simp: Run_def Run_command_events_def Let_def split: option.splits prod.splits)

theorem Run_not_terminal_witness:
  "\<not> IsTerminal env_batch \<and>
   Run example_runner env_batch =
     Return (example_runner\<lparr>session := Some (fresh_session\<lparr>Stdin := Some os_Stdin\<rparr>), exitCode := 3\<rparr>,
       Some (Envelope \<lparr>Error.script = example_script, command = ''sh -s echo hi'', exitCode = 3,
         err = Wrapped ''[golang-exec/runner/ssh/Run()] runner failed: '' (ExitError 3)\<rparr>),
       [Ev_IsTerminal, Ev_Printf ''Running command: sh -s echo hi'', Ev_session_Run ''sh -s echo hi'']) \<and>
   list_all (\<lambda>ev. \<not> is_RequestPty ev \<and> \<not> changes_terminal_mode ev)
     [Ev_IsTerminal, Ev_Printf ''Running command: sh -s echo hi'', Ev_session_Run ''sh -s echo hi'']"
proof -
  have a: "\<not> IsTerminal env_batch" by (simp add: env_batch_def)
  have b: "Run example_runner env_batch =
     Return (example_runner\<lparr>session := Some (fresh_session\<lparr>Stdin := Some os_Stdin\<rparr>), exitCode := 3\<rparr>,
       Some (Envelope \<lparr>Error.script = example_script, command = ''sh -s echo hi'', exitCode = 3,
         err = Wrapped ''[golang-exec/runner/ssh/Run()] runner failed: '' (ExitError 3)\<rparr>),
       [Ev_IsTerminal, Ev_Printf ''Running command: sh -s echo hi'', Ev_session_Run ''sh -s echo hi''])"
    by (simp add: Run_def Run_command_def Run_command_events_def env_batch_def example_runner_def
        fmt_Errorf_def Let_def)
  from Run_not_terminal [OF a b] a b show ?thesis by simp
qed

section \<open>The running flag\<close>

lemma exec_call_keeps_running:
  assumes "running r \<and> session r \<noteq> None" and "\<not> is_Wait c" and "exec_call r c = Return r'"
  shows "running r' \<and> session r' \<noteq> None"
  using assms
  by (cases c)
     (auto simp: SetStdoutWriter_def SetStderrWriter_def StdoutPipe_def StderrPipe_def Run_def
        Run_command_def Start_def Close_def Let_def
        split: option.splits sum.splits prod.splits if_splits)

lemma exec_calls_keep_running:
  assumes "running r \<and> session r \<noteq> None" and "list_all (\<lambda>c. \<not> is_Wait c) cs"
    and "exec_calls r cs = Return r'"
  shows "running r' \<and> session r' \<noteq> None"
  using assms
proof (induction cs arbitrary: r)
  case Nil
  then show ?case by simp
next
  case (Cons c cs)
  from Cons.prems(3) obtain r1
    where c1: "exec_call r c = Return r1" and rest: "exec_calls r1 cs = Return r'"
    by (auto split: outcome.splits)
  from Cons.prems(2) have nw: "\<not> is_Wait c" and nws: "list_all (\<lambda>c. \<not> is_Wait c) cs"
    by simp_all
  from exec_call_keeps_running [OF Cons.prems(1) nw c1]
  have "running r1 \<and> session r1 \<noteq> None" .
  from Cons.IH [OF this nws rest] show ?case .
qed

lemma Wait_clears_running:
  assumes "session r \<noteq> None"
  shows "\<exists>r' e tr. Wait r res = Return (r', e, tr) \<and> \<not> running r' \<and> (e = None \<longleftrightarrow> res = None)"
  using assms
  by (auto simp: Wait_def Let_def split: option.splits)

text \<open>
  Claim C5. After a \<open>Start\<close> that returns nil the running flag is set; it is still set
  after any sequence of calls on the runner that contains no \<open>Wait\<close>; and the \<open>Wait\<close>
  that follows returns with the flag cleared, whether \<^verbatim>\<open>session.Wait\<close> succeeded (then
  \<open>Wait\<close> returns nil) or failed (then it returns an error).
\<close>

theorem Start_Wait_running:
  assumes "Start r res = Return (r1, None, tr1)"
    and "list_all (\<lambda>c. \<not> is_Wait c) cs"
    and "exec_calls r1 cs = Return r2"
  shows "running r1 \<and> running r2 \<and>
    (\<exists>r3 e tr3. Wait r2 res' = Return (r3, e, tr3) \<and> \<not> running r3 \<and> (e = None \<longleftrightarrow> res' = None))"
proof -
  from assms(1) have a: "running r1 \<and> session r1 \<noteq> None"
    by (auto simp: Start_def split: option.splits)
  from exec_calls_keep_running [OF a assms(2) assms(3)]
  have b: "running r2 \<and> session r2 \<noteq> None" .
  from b Wait_clears_running [of r2 res'] a show ?thesis by blast
qed

theorem Start_Wait_running_witness:
  "Start example_runner None = Return (started_runner, None, [Ev_session_Start ''sh -s echo hi'']) \<and>
   list_all (\<lambda>c. \<not> is_Wait c) calls_between \<and>
   exec_calls started_runner calls_between = Return runner_between \<and>
   running started_runner \<and> running runner_between \<and>
   (\<exists>r3 e tr3. Wait runner_between (Some (ExitError 2)) = Return (r3, e, tr3) \<and> \<not> running r3
      \<and> e \<noteq> None) \<and>
   (\<exists>r3 tr3. Wait runner_between None = Return (r3, None, tr3) \<and> \<not> running r3)"
proof -
  have a: "Start example_runner None =
      Return (started_runner, None, [Ev_session_Start ''sh -s echo hi''])"
    by (simp add: Start_def example_runner_def started_runner_def)
  have b: "list_all (\<lambda>c. \<not> is_Wait c) calls_between"
    by (simp add: calls_between_def)
  have c: "exec_calls started_runner calls_between = Return runner_between"
    by (simp add: calls_between_def runner_between_def started_runner_def example_runner_def
        fresh_session_def SetStdoutWriter_def StderrPipe_def Start_def Run_def Run_command_def
        Close_def env_batch_def Let_def)
  from Start_Wait_running [OF a b c, of "Some (ExitError 2)"]
    Start_Wait_running [OF a b c, of None] a b c
  show ?thesis by auto
qed

section \<open>Run on a terminal\<close>

text \<open>
  When the command is run (standard input is no terminal, or the terminal block
  succeeds), \<open>Run\<close> classifies the result of \<^verbatim>\<open>session.Run\<close>: nil gives exit code 0 and
  nil; an \<^verbatim>\<open>*ssh.ExitError\<close> gives its exit status, any other error gives -1, both with an
  \<open>Error\<close> that carries the same exit code.
\<close>

lemma Run_exit_status:
  assumes "\<not> IsTerminal env \<or> pty_ok env" and "session r \<noteq> None"
  shows "case Run r env of
       Panic \<Rightarrow> False
     | Return (r', eo, tr) \<Rightarrow>
         (case session_Run env of
            None \<Rightarrow> eo = None \<and> ExitCode r' = 0
          | Some x \<Rightarrow>
              ExitCode r' = (case errors_As_ExitError x of Some n \<Rightarrow> n | None \<Rightarrow> - 1) \<and>
              (case eo of
                 Some (Envelope ee) \<Rightarrow> Error_ExitCode ee = ExitCode r'
               | _ \<Rightarrow> False))"
  using assms
  by (auto simp: Run_def Run_pty_def Run_command_def pty_ok_def ExitCode_def Error_ExitCode_def
      Let_def split: option.splits sum.splits prod.splits)

text \<open>
  Claim C1 at a call of \<open>Run\<close> that fails for a cause that is no process exit: standard
  input is a terminal and the server refuses the pseudo-terminal request. \<open>Run\<close> returns
  the error of \<^verbatim>\<open>RequestPty\<close> as it is, not an \<open>Error\<close>, and leaves the exit code at its
  old value, here 0.
\<close>

theorem Run_pty_rejected_exit_code:
  "Run example_runner env_pty_rejected =
     Return (example_runner\<lparr>session := Some (fresh_session\<lparr>Stdin := Some os_Stdin\<rparr>)\<rparr>,
       Some (Bare (OtherError ''ssh: pty-req failed'')),
       [Ev_IsTerminal, Ev_MakeRaw, Ev_GetSize, Ev_RequestPty ''xterm-256color'' 24 80 modes,
        Ev_Restore 7]) \<and>
   ExitCode (example_runner\<lparr>session := Some (fresh_session\<lparr>Stdin := Some os_Stdin\<rparr>)\<rparr>) = 0"
  by (simp add: Run_def Run_pty_def env_pty_rejected_def example_runner_def ExitCode_def Let_def)

text \<open>
  Claim C4 at a call of \<open>Run\<close> on a terminal of 80 columns and 24 lines: the
  pseudo-terminal request carries \<^verbatim>\<open>xterm-256color\<close>, height 24, width 80 and fixed baud
  rates, but its mode map sets \<open>ECHO\<close> to 1, which turns echo on; the comment beside the
  entry says it disables echoing.
\<close>

theorem Run_terminal_modes_ECHO:
  "Run example_runner env_terminal =
     Return (example_runner\<lparr>session := Some (fresh_session\<lparr>Stdin := Some os_Stdin\<rparr>)\<rparr>,
       None,
       [Ev_IsTerminal, Ev_MakeRaw, Ev_GetSize, Ev_RequestPty ''xterm-256color'' 24 80 modes,
        Ev_Printf ''Running command: sh -s echo hi'', Ev_session_Run ''sh -s echo hi'',
        Ev_Restore 7]) \<and>
   map_of modes ECHO = Some 1 \<and>
   map_of modes TTY_OP_ISPEED = Some 14400 \<and> map_of modes TTY_OP_OSPEED = Some 14400"
  by (simp add: Run_def Run_pty_def Run_command_def Run_command_events_def env_terminal_def
      example_runner_def modes_def Let_def)

section \<open>Parsing ports and booleans\<close>

lemma foldl_digits_ge: "n \<le> foldl (\<lambda>n c. n * 10 + digit_val c) n s"
proof (induction s arbitrary: n)
  case Nil
  then show ?case by simp
next
  case (Cons c s)
  have "n \<le> n * 10 + digit_val c" by simp
  also have "\<dots> \<le> foldl (\<lambda>n c. n * 10 + digit_val c) (n * 10 + digit_val c) s"
    by (rule Cons.IH)
  finally show ?case by simp
qed

lemma ParseUint_loop_eq:
  assumes "n \<le> m"
  shows "ParseUint_loop m n s =
     (if list_all is_digit s \<and> foldl (\<lambda>n c. n * 10 + digit_val c) n s \<le> m
      then Some (foldl (\<lambda>n c. n * 10 + digit_val c) n s) else None)"
  using assms
proof (induction s arbitrary: n)
  case Nil
  then show ?case by simp
next
  case (Cons c s)
  show ?case
  proof (cases "is_digit c \<and> n * 10 + digit_val c \<le> m")
    case True
    then show ?thesis using Cons.IH [of "n * 10 + digit_val c"] by simp
  next
    case False
    have "n * 10 + digit_val c \<le> foldl (\<lambda>n c. n * 10 + digit_val c) (n * 10 + digit_val c) s"
      by (rule foldl_digits_ge)
    with False show ?thesis by auto
  qed
qed

lemma ParseUint10_eq:
  "ParseUint10 s 16 = (if s \<noteq> [] \<and> list_all is_digit s \<and> digits_value s < 65536
     then Some (digits_value s) else None)"
  by (auto simp: ParseUint10_def ParseUint_loop_eq digits_value_def)

lemma ToLower_byte_not_upper:
  "\<not> (65 \<le> (of_char (ToLower_byte c) :: nat) \<and> (of_char (ToLower_byte c) :: nat) \<le> 90)"
  by (auto simp: ToLower_byte_def)

lemma ToLower_no_upper:
  assumes "c \<in> set (ToLower s)"
  shows "\<not> (65 \<le> (of_char c :: nat) \<and> (of_char c :: nat) \<le> 90)"
  using assms ToLower_byte_not_upper by (auto simp: ToLower_def)

lemma ParseBool_ToLower:
  "ParseBool (ToLower s) =
     (if ToLower s = ''1'' \<or> ToLower s = ''t'' \<or> ToLower s = ''true'' then Some True
      else if ToLower s = ''0'' \<or> ToLower s = ''f'' \<or> ToLower s = ''false'' then Some False
      else None)"
proof -
  have "ToLower s \<noteq> ''T''" "ToLower s \<noteq> ''TRUE''" "ToLower s \<noteq> ''True''"
    "ToLower s \<noteq> ''F''" "ToLower s \<noteq> ''FALSE''" "ToLower s \<noteq> ''False''"
    using ToLower_no_upper [of "CHR ''T''" s] ToLower_no_upper [of "CHR ''F''" s]
    by auto
  then show ?thesis by (simp add: ParseBool_def)
qed

text \<open>The decimal rendering of a number is a digit string that denotes it.\<close>

lemma decimal_nonempty: "decimal n \<noteq> []"
  by (subst decimal.simps) simp

lemma is_digit_char_of: "(d::nat) < 10 \<Longrightarrow> is_digit (char_of (48 + d))"
  by (simp add: is_digit_def)

lemma digit_val_char_of: "(d::nat) < 10 \<Longrightarrow> digit_val (char_of (48 + d)) = d"
  by (simp add: digit_val_def)

lemma decimal_digits: "list_all is_digit (decimal n)"
proof (induction n rule: decimal.induct)
  case (1 n)
  show ?case
  proof (cases "n < 10")
    case True
    then show ?thesis by (subst decimal.simps) (simp add: is_digit_char_of)
  next
    case False
    with "1.IH" have "list_all is_digit (decimal (n div 10))" by simp
    moreover have "is_digit (char_of (48 + n mod 10))" by (rule is_digit_char_of) simp
    ultimately show ?thesis using False by (subst decimal.simps) simp
  qed
qed

lemma digits_value_snoc: "digits_value (s @ [c]) = digits_value s * 10 + digit_val c"
  by (simp add: digits_value_def)

lemma digits_value_decimal: "digits_value (decimal n) = n"
proof (induction n rule: decimal.induct)
  case (1 n)
  show ?case
  proof (cases "n < 10")
    case True
    then show ?thesis
      by (subst decimal.simps) (simp add: digits_value_def digit_val_char_of)
  next
    case False
    with "1.IH" have "digits_value (decimal (n div 10)) = n div 10" by simp
    moreover have "digit_val (char_of (48 + n mod 10)) = n mod 10"
      by (rule digit_val_char_of) simp
    ultimately show ?thesis using False
      by (subst decimal.simps) (simp add: digits_value_snoc)
  qed
qed

lemma decimal_denotes: "denotes_uint (decimal n) n"
  by (simp add: denotes_uint_def decimal_nonempty decimal_digits digits_value_decimal)

lemma denotes_uint_port: "denotes_uint v p \<Longrightarrow> p < 65536 \<Longrightarrow> port_of_string v = of_nat p"
  by (auto simp: denotes_uint_def port_of_string_def)

lemma denotes_bool_parse: "denotes_bool v i \<Longrightarrow> bool_of_string v = i"
  by (auto simp: denotes_bool_def bool_of_string_def split: if_splits)

section \<open>toConnection on a map\<close>

lemma entry_Port:
  "Port (toConnection_entry c (k, v)) = (if k = ''Port'' then port_of_string v else Port c)"
  by (simp add: toConnection_entry_def ParseUint10_eq port_of_string_def)

lemma entry_Insecure:
  "Insecure (toConnection_entry c (k, v)) =
     (if k = ''Insecure'' then bool_of_string v else Insecure c)"
  by (simp add: toConnection_entry_def ParseBool_ToLower bool_of_string_def)

lemma entry_Type:
  "Type (toConnection_entry c (k, v)) = (if k = ''Type'' then v else Type c)"
  by (simp add: toConnection_entry_def)

lemma entry_Host:
  "Host (toConnection_entry c (k, v)) = (if k = ''Host'' then v else Host c)"
  by (simp add: toConnection_entry_def)

lemma entry_User:
  "Connection.User (toConnection_entry c (k, v)) =
     (if k = ''User'' then v else Connection.User c)"
  by (simp add: toConnection_entry_def)

lemma entry_Password:
  "Password (toConnection_entry c (k, v)) = (if k = ''Password'' then v else Password c)"
  by (simp add: toConnection_entry_def)

lemma entry_other:
  "k \<notin> set field_names \<Longrightarrow> toConnection_entry c (k, v) = c"
  by (simp add: toConnection_entry_def field_names_def)

text \<open>
  A field that only the entry with key \<open>key\<close> assigns has, after the loop, the value
  converted from that entry, or its initial value when the map has no such key. The keys
  of a map are distinct, so the order of the iteration does not matter.
\<close>

lemma foldl_field:
  assumes step: "\<And>c k v. sel (toConnection_entry c (k, v)) = (if k = key then conv v else sel c)"
    and "distinct (map fst kvs)"
  shows "sel (foldl toConnection_entry c kvs) =
     (case map_of kvs key of None \<Rightarrow> sel c | Some v \<Rightarrow> conv v)"
  using assms(2)
proof (induction kvs arbitrary: c)
  case Nil
  then show ?case by simp
next
  case (Cons kv kvs)
  obtain k v where kv: "kv = (k, v)" by (cases kv)
  from Cons.prems have d: "distinct (map fst kvs)" and nk: "k \<notin> fst ` set kvs"
    by (auto simp: kv)
  have ih: "sel (foldl toConnection_entry (toConnection_entry c (k, v)) kvs) =
     (case map_of kvs key of None \<Rightarrow> sel (toConnection_entry c (k, v)) | Some v \<Rightarrow> conv v)"
    by (rule Cons.IH [OF d])
  show ?case
  proof (cases "k = key")
    case True
    with nk have "map_of kvs key = None" by (simp add: map_of_eq_None_iff)
    with ih True show ?thesis by (simp add: kv step)
  next
    case False
    with ih show ?thesis by (simp add: kv step cong: option.case_cong)
  qed
qed

lemma foldl_filter_fields:
  "foldl toConnection_entry c (filter (\<lambda>kv. fst kv \<in> set field_names) kvs) =
   foldl toConnection_entry c kvs"
proof (induction kvs arbitrary: c)
  case Nil
  then show ?case by simp
next
  case (Cons kv kvs)
  obtain k v where kv: "kv = (k, v)" by (cases kv)
  show ?case
  proof (cases "k \<in> set field_names")
    case True
    then show ?thesis by (simp add: kv Cons.IH)
  next
    case False
    then show ?thesis by (simp add: kv Cons.IH entry_other)
  qed
qed

lemma toConnection_map_fields:
  assumes "distinct (map fst kvs)"
  shows "\<exists>c. toConnection (Map_value kvs) = Return c \<and>
    Type c = (case map_of kvs ''Type'' of None \<Rightarrow> [] | Some v \<Rightarrow> v) \<and>
    Host c = (case map_of kvs ''Host'' of None \<Rightarrow> [] | Some v \<Rightarrow> v) \<and>
    Port c = (case map_of kvs ''Port'' of None \<Rightarrow> 0 | Some v \<Rightarrow> port_of_string v) \<and>
    Connection.User c = (case map_of kvs ''User'' of None \<Rightarrow> [] | Some v \<Rightarrow> v) \<and>
    Password c = (case map_of kvs ''Password'' of None \<Rightarrow> [] | Some v \<Rightarrow> v) \<and>
    Insecure c = (case map_of kvs ''Insecure'' of None \<Rightarrow> False | Some v \<Rightarrow> bool_of_string v) \<and>
    toConnection (Map_value (filter (\<lambda>kv. fst kv \<in> set field_names) kvs)) = Return c"
proof -
  let ?c = "foldl toConnection_entry new_Connection kvs"
  have "Type ?c = (case map_of kvs ''Type'' of None \<Rightarrow> [] | Some v \<Rightarrow> v)"
    using foldl_field [of Type "''Type''" "\<lambda>v. v", OF entry_Type assms, of new_Connection]
    by (simp add: new_Connection_def cong: option.case_cong)
  moreover have "Host ?c = (case map_of kvs ''Host'' of None \<Rightarrow> [] | Some v \<Rightarrow> v)"
    using foldl_field [of Host "''Host''" "\<lambda>v. v", OF entry_Host assms, of new_Connection]
    by (simp add: new_Connection_def cong: option.case_cong)
  moreover have "Port ?c = (case map_of kvs ''Port'' of None \<Rightarrow> 0 | Some v \<Rightarrow> port_of_string v)"
    using foldl_field [of Port "''Port''" port_of_string, OF entry_Port assms, of new_Connection]
    by (simp add: new_Connection_def cong: option.case_cong)
  moreover have "Connection.User ?c = (case map_of kvs ''User'' of None \<Rightarrow> [] | Some v \<Rightarrow> v)"
    using foldl_field [of Connection.User "''User''" "\<lambda>v. v", OF entry_User assms,
        of new_Connection]
    by (simp add: new_Connection_def cong: option.case_cong)
  moreover have "Password ?c = (case map_of kvs ''Password'' of None \<Rightarrow> [] | Some v \<Rightarrow> v)"
    using foldl_field [of Password "''Password''" "\<lambda>v. v", OF entry_Password assms,
        of new_Connection]
    by (simp add: new_Connection_def cong: option.case_cong)
  moreover have "Insecure ?c =
      (case map_of kvs ''Insecure'' of None \<Rightarrow> False | Some v \<Rightarrow> bool_of_string v)"
    using foldl_field [of Insecure "''Insecure''" bool_of_string, OF entry_Insecure assms,
        of new_Connection]
    by (simp add: new_Connection_def cong: option.case_cong)
  ultimately show ?thesis by (simp add: foldl_filter_fields)
qed

text \<open>
  Claim C6. For every map-form descriptor, \<open>toConnection\<close> returns a connection (it does
  not panic and has no error result). Its port is the value of the entry \<^verbatim>\<open>Port\<close> when
  that is a non-empty string of decimal digits with a value below 65536, and 0
  otherwise; its flag is true when the entry \<^verbatim>\<open>Insecure\<close> is a spelling of true in any
  case, and false otherwise; and the result is the same when every entry with a key other
  than the six field names is removed.
\<close>

theorem toConnection_map:
  assumes "distinct (map fst kvs)"
  shows "\<exists>c. toConnection (Map_value kvs) = Return c \<and>
    Port c = (case map_of kvs ''Port'' of None \<Rightarrow> 0 | Some v \<Rightarrow> port_of_string v) \<and>
    Insecure c = (case map_of kvs ''Insecure'' of None \<Rightarrow> False | Some v \<Rightarrow> bool_of_string v) \<and>
    toConnection (Map_value (filter (\<lambda>kv. fst kv \<in> set field_names) kvs)) = Return c"
  using toConnection_map_fields [OF assms] by blast

theorem toConnection_map_witness:
  "distinct (map fst map_unparsable) \<and>
   (\<exists>c. toConnection (Map_value map_unparsable) = Return c \<and>
      Port c = 0 \<and> Insecure c = False \<and>
      toConnection (Map_value [(''Port'', ''65536''), (''Insecure'', ''yes'')]) = Return c)"
proof -
  have d: "distinct (map fst map_unparsable)" by (simp add: map_unparsable_def)
  have p: "port_of_string ''65536'' = 0"
    by (simp add: port_of_string_def digits_value_def digit_val_def is_digit_def)
  have b: "bool_of_string ''yes'' = False"
    by (simp add: bool_of_string_def ToLower_def ToLower_byte_def)
  from toConnection_map [OF d] d p b show ?thesis
    by (simp add: map_unparsable_def field_names_def)
qed

text \<open>A map whose entries parse: the port is 22 and the flag is set.\<close>

lemma toConnection_map_example:
  "toConnection (Map_value map_example) =
     Return \<lparr>Type = [], Host = ''example.org'', Port = 22, User = ''root'', Password = [],
       Insecure = True\<rparr>"
  by (simp add: map_example_def toConnection_entry_def new_Connection_def ParseUint10_def
      is_digit_def digit_val_def ParseBool_def ToLower_def ToLower_byte_def char_of_eq_iff)

section \<open>Struct form and map form\<close>

lemma toConnection_struct:
  assumes "struct_carries flds c"
  shows "toConnection (Struct_value flds) = Return c"
proof -
  from assms obtain T w T' where
    port: "FieldByName flds ''Port'' = R_Uint T w" "unat w = unat (Port c)"
    and flag: "FieldByName flds ''Insecure'' = R_Bool T' (Insecure c)"
    by (auto simp: struct_carries_def split: rvalue.splits)
  from port(2) have "(ucast w :: uint16) = Port c"
    by (metis ucast_id of_nat_unat)
  with assms port flag show ?thesis
    by (simp add: struct_carries_def)
qed

lemma toConnection_map_carries:
  assumes "distinct (map fst kvs)" and "map_carries kvs c"
  shows "toConnection (Map_value kvs) = Return c"
proof -
  from toConnection_map_fields [OF assms(1)] obtain c' where
    c': "toConnection (Map_value kvs) = Return c'"
    and "Type c' = (case map_of kvs ''Type'' of None \<Rightarrow> [] | Some v \<Rightarrow> v)"
    and "Host c' = (case map_of kvs ''Host'' of None \<Rightarrow> [] | Some v \<Rightarrow> v)"
    and "Port c' = (case map_of kvs ''Port'' of None \<Rightarrow> 0 | Some v \<Rightarrow> port_of_string v)"
    and "Connection.User c' = (case map_of kvs ''User'' of None \<Rightarrow> [] | Some v \<Rightarrow> v)"
    and "Password c' = (case map_of kvs ''Password'' of None \<Rightarrow> [] | Some v \<Rightarrow> v)"
    and "Insecure c' =
      (case map_of kvs ''Insecure'' of None \<Rightarrow> False | Some v \<Rightarrow> bool_of_string v)"
    by blast
  moreover have "unat (Port c) < 65536"
    using unsigned_less [of "Port c", where ?'a = nat] by simp
  ultimately have "Type c' = Type c" "Host c' = Host c" "Port c' = Port c"
    "Connection.User c' = Connection.User c" "Password c' = Password c"
    "Insecure c' = Insecure c"
    using assms(2)
    by (auto simp: map_carries_def denotes_uint_port denotes_bool_parse split: option.splits)
  then have "c' = c" by simp
  with c' show ?thesis by simp
qed

text \<open>
  Claim C7. A struct-form and a map-form descriptor that carry the same logical values,
  those of a canonical connection \<open>c\<close>, are normalised to the same connection, which is
  \<open>c\<close> itself.
\<close>

theorem toConnection_struct_map_agree:
  assumes "distinct (map fst kvs)" and "struct_carries flds c" and "map_carries kvs c"
  shows "toConnection (Struct_value flds) = Return c \<and>
    toConnection (Map_value kvs) = toConnection (Struct_value flds)"
  using toConnection_struct [OF assms(2)] toConnection_map_carries [OF assms(1,3)] by simp

theorem toConnection_struct_map_agree_witness:
  "distinct (map fst map_same) \<and> struct_carries struct_same same_connection \<and>
   map_carries map_same same_connection \<and>
   toConnection (Struct_value struct_same) = Return same_connection \<and>
   toConnection (Map_value map_same) = toConnection (Struct_value struct_same)"
proof -
  have b: "distinct (map fst map_same)" by (simp add: map_same_def)
  have c: "struct_carries struct_same same_connection"
    by (simp add: struct_carries_def struct_same_def same_connection_def FieldByName_def)
  have d: "map_carries map_same same_connection"
    by (simp add: map_carries_def map_same_def same_connection_def denotes_uint_def
        denotes_bool_def is_digit_def digits_value_def digit_val_def ToLower_def
        ToLower_byte_def char_of_eq_iff)
  from toConnection_struct_map_agree [OF b c d] b c d show ?thesis by simp
qed

text \<open>
  A port of 65536 or more is not the port of any canonical connection. There the two
  forms part: the struct's port is truncated by the conversion to \<^verbatim>\<open>uint16\<close>, the map's
  port fails to parse and becomes 0.
\<close>

lemma toConnection_wide_port:
  "toConnection (Struct_value struct_wide) =
     Return \<lparr>Type = ''ssh'', Host = ''example.org'', Port = 4464, User = ''root'',
       Password = ''secret'', Insecure = True\<rparr> \<and>
   toConnection (Map_value map_wide) =
     Return \<lparr>Type = ''ssh'', Host = ''example.org'', Port = 0, User = ''root'',
       Password = ''secret'', Insecure = True\<rparr>"
  by (simp add: struct_wide_def map_wide_def FieldByName_def toConnection_entry_def
      new_Connection_def ParseUint10_def is_digit_def digit_val_def ParseBool_def ToLower_def
      ToLower_byte_def char_of_eq_iff)

section \<open>Construction\<close>

lemma New_result:
  assumes "New connection s env = Return (ro, e, tr)"
  shows "(ro = None) = (e \<noteq> None)"
    and "(e \<noteq> None) = New_fails connection s env"
    and "e \<noteq> None \<Longrightarrow> \<exists>format cause. e = Some (New_Error s format cause)"
  using assms
  by (auto simp: New_def New_HostKeyCallback_def New_fails_def Let_def
      split: option.splits sum.splits prod.splits outcome.splits if_splits)

lemma New_no_dial:
  assumes "New connection s env = Return (ro, e, tr)"
  shows "Error s \<noteq> None \<Longrightarrow> tr = []"
    and "NewReader env \<noteq> None \<Longrightarrow> list_all (\<lambda>ev. \<not> is_Dial ev) tr"
    and "toConnection connection = Return c \<Longrightarrow> \<not> Insecure c \<Longrightarrow>
         isl (homedir_Expand env) \<or> knownhosts_New env \<noteq> None \<Longrightarrow> list_all (\<lambda>ev. \<not> is_Dial ev) tr"
  using assms
  by (auto simp: New_def New_HostKeyCallback_def Let_def
      split: option.splits sum.splits prod.splits outcome.splits if_splits)

lemma decimal_22: "decimal 22 = ''22''"
  by (simp add: decimal.simps char_of_eq_iff)

lemma New_example:
  "New (Map_value map_example) example_script new_env_ok =
     Return (Some example_runner, None,
       [Ev_NewReader, Ev_ReadAll,
        Ev_Dial ''tcp'' ''example.org:22''
          \<lparr>User = ''root'', Auth = [ssh_Password []],
           HostKeyCallback = Some ssh_InsecureIgnoreHostKey\<rparr>,
        Ev_NewSession])"
  by (simp add: New_def New_HostKeyCallback_def toConnection_map_example example_script_def
      new_env_ok_def example_runner_def fresh_session_def decimal_22 Let_def
      del: toConnection.simps)

lemma New_panics:
  "New connection s env = Panic \<Longrightarrow>
     Error s = None \<and> NewReader env = None \<and> toConnection connection = Panic"
  by (auto simp: New_def New_HostKeyCallback_def Let_def
      split: option.splits sum.splits prod.splits outcome.splits if_splits)

lemma New_parse_error:
  "Error s = Some x \<Longrightarrow>
     New connection s env =
       Return (None, Some (New_Error s ''[golang-exec/runner/ssh/New()] script failed to parse: '' x), [])"
  by (simp add: New_def)

text \<open>
  Claim C8. Whenever \<open>New\<close> returns, it returns no runner exactly when it returns an
  error, and it returns an error exactly when one of the steps of the construction fails
  (parse error of the script, creation of the reader, known-hosts resolution, dial,
  opening of the channel). That error is an \<open>Error\<close> with exit code -1 that names the
  script. \<open>New\<close> has not dialled when the reader cannot be created or the known-hosts
  resolution fails. When the script carries a parse error, \<open>New\<close> does return, with such
  an error and no runner, and has called no collaborator at all, so it has not dialled.
  \<open>New\<close> fails to return only when \<open>toConnection\<close> panics on the descriptor.
\<close>

theorem New_failure:
  "(New connection s env = Return (ro, e, tr) \<longrightarrow>
      (ro = None) = (e \<noteq> None) \<and> (e \<noteq> None) = New_fails connection s env \<and>
      (e \<noteq> None \<longrightarrow>
         (\<exists>ee. e = Some (Envelope ee) \<and> Error_ExitCode ee = - 1 \<and> Error_Script ee = s)) \<and>
      (NewReader env \<noteq> None \<longrightarrow> list_all (\<lambda>ev. \<not> is_Dial ev) tr) \<and>
      (toConnection connection = Return c \<and> \<not> Insecure c \<and>
         (isl (homedir_Expand env) \<or> knownhosts_New env \<noteq> None) \<longrightarrow>
         list_all (\<lambda>ev. \<not> is_Dial ev) tr)) \<and>
   (Error s \<noteq> None \<longrightarrow>
      (\<exists>ee. New connection s env = Return (None, Some (Envelope ee), []) \<and>
         Error_ExitCode ee = - 1 \<and> Error_Script ee = s)) \<and>
   (New connection s env = Panic \<longrightarrow>
      Error s = None \<and> NewReader env = None \<and> toConnection connection = Panic)"
proof -
  have "New connection s env = Return (ro, e, tr) \<longrightarrow>
      (ro = None) = (e \<noteq> None) \<and> (e \<noteq> None) = New_fails connection s env \<and>
      (e \<noteq> None \<longrightarrow>
         (\<exists>ee. e = Some (Envelope ee) \<and> Error_ExitCode ee = - 1 \<and> Error_Script ee = s)) \<and>
      (NewReader env \<noteq> None \<longrightarrow> list_all (\<lambda>ev. \<not> is_Dial ev) tr) \<and>
      (toConnection connection = Return c \<and> \<not> Insecure c \<and>
         (isl (homedir_Expand env) \<or> knownhosts_New env \<noteq> None) \<longrightarrow>
         list_all (\<lambda>ev. \<not> is_Dial ev) tr)"
  proof
    assume a: "New connection s env = Return (ro, e, tr)"
    have "e \<noteq> None \<longrightarrow>
       (\<exists>ee. e = Some (Envelope ee) \<and> Error_ExitCode ee = - 1 \<and> Error_Script ee = s)"
      using New_result(3) [OF a]
      by (auto simp: New_Error_def Error_ExitCode_def Error_Script_def)
    with New_result(1,2) [OF a] New_no_dial(2,3) [OF a]
    show "(ro = None) = (e \<noteq> None) \<and> (e \<noteq> None) = New_fails connection s env \<and>
      (e \<noteq> None \<longrightarrow>
         (\<exists>ee. e = Some (Envelope ee) \<and> Error_ExitCode ee = - 1 \<and> Error_Script ee = s)) \<and>
      (NewReader env \<noteq> None \<longrightarrow> list_all (\<lambda>ev. \<not> is_Dial ev) tr) \<and>
      (toConnection connection = Return c \<and> \<not> Insecure c \<and>
         (isl (homedir_Expand env) \<or> knownhosts_New env \<noteq> None) \<longrightarrow>
         list_all (\<lambda>ev. \<not> is_Dial ev) tr)"
      by blast
  qed
  moreover have "Error s \<noteq> None \<longrightarrow>
      (\<exists>ee. New connection s env = Return (None, Some (Envelope ee), []) \<and>
         Error_ExitCode ee = - 1 \<and> Error_Script ee = s)"
    using New_parse_error [of s _ connection env]
    by (auto simp: New_Error_def Error_ExitCode_def Error_Script_def)
  moreover note New_panics [of connection s env]
  ultimately show ?thesis by blast
qed

theorem New_failure_witness:
  "Error broken_script \<noteq> None \<and>
   New (Map_value map_example) broken_script new_env_ok =
     Return (None,
       Some (Envelope \<lparr>Error.script = broken_script, command = [], exitCode = - 1,
         err = Wrapped ''[golang-exec/runner/ssh/New()] script failed to parse: ''
           (OtherError ''template: unexpected EOF'')\<rparr>), []) \<and>
   New_fails (Map_value map_example) broken_script new_env_ok \<and>
   (\<exists>ee. New (Map_value map_example) broken_script new_env_ok =
       Return (None, Some (Envelope ee), []) \<and> Error_ExitCode ee = - 1 \<and>
       Error_Script ee = broken_script)"
proof -
  have a: "New (Map_value map_example) broken_script new_env_ok =
     Return (None,
       Some (Envelope \<lparr>Error.script = broken_script, command = [], exitCode = - 1,
         err = Wrapped ''[golang-exec/runner/ssh/New()] script failed to parse: ''
           (OtherError ''template: unexpected EOF'')\<rparr>), [])"
    by (simp add: New_def New_Error_def fmt_Errorf_def broken_script_def)
  have b: "Error broken_script \<noteq> None" by (simp add: broken_script_def)
  from New_failure [of "Map_value map_example" broken_script new_env_ok None
      "Some (Envelope \<lparr>Error.script = broken_script, command = [], exitCode = - 1,
         err = Wrapped ''[golang-exec/runner/ssh/New()] script failed to parse: ''
           (OtherError ''template: unexpected EOF'')\<rparr>)" "[]"] a b
  show ?thesis by simp
qed

text \<open>
  Claim C10. When the reader for the rendered script is created and reading it to the end
  fails, \<open>New\<close> behaves exactly as if the read had succeeded with an empty body: the
  failure is dropped. When the host-key callback can be set up (the connection is
  insecure, or the known-hosts file loads), \<open>New\<close> goes on to dial; it then returns no
  runner only if the dial or the opening of the channel fails, and otherwise returns nil
  and a runner whose command is the command line of the script followed by nothing.
\<close>

theorem New_read_error_swallowed:
  assumes "Error s = None" and "NewReader env = None" and "ReadAll env = (b, Some e)"
  shows "New connection s env = New connection s (env\<lparr>ReadAll := ([], None)\<rparr>) \<and>
    (toConnection connection = Return c \<and>
     (Insecure c \<or> \<not> isl (homedir_Expand env) \<and> knownhosts_New env = None) \<longrightarrow>
       (case New connection s env of
          Panic \<Rightarrow> False
        | Return (ro, e2, tr) \<Rightarrow>
            list_ex is_Dial tr \<and>
            (case ro of
               None \<Rightarrow> isl (ssh_Dial env) \<or> NewSession env \<noteq> None
             | Some r \<Rightarrow> e2 = None \<and> command r = Command s @ [])))"
proof -
  have "New connection s env = New connection s (env\<lparr>ReadAll := ([], None)\<rparr>)"
  proof -
    have hk: "New_HostKeyCallback s c' (env\<lparr>ReadAll := ([], None)\<rparr>) = New_HostKeyCallback s c' env"
      for c'
      by (simp add: New_HostKeyCallback_def split: sum.splits option.splits)
    show ?thesis
      using assms
      by (simp add: New_def hk Let_def
          cong: outcome.case_cong sum.case_cong option.case_cong prod.case_cong)
  qed
  moreover have "toConnection connection = Return c \<and>
     (Insecure c \<or> \<not> isl (homedir_Expand env) \<and> knownhosts_New env = None) \<longrightarrow>
       (case New connection s env of
          Panic \<Rightarrow> False
        | Return (ro, e2, tr) \<Rightarrow>
            list_ex is_Dial tr \<and>
            (case ro of
               None \<Rightarrow> isl (ssh_Dial env) \<or> NewSession env \<noteq> None
             | Some r \<Rightarrow> e2 = None \<and> command r = Command s @ []))"
    using assms
    by (auto simp: New_def New_HostKeyCallback_def Let_def
        split: option.splits sum.splits)
  ultimately show ?thesis by blast
qed

lemma New_read_fails_example:
  "New (Map_value map_example) example_script new_env_read_fails =
     Return (Some runner_empty_body, None, example_dial @ [Ev_NewSession])"
  by (simp add: New_def New_HostKeyCallback_def toConnection_map_example example_script_def
      new_env_ok_def new_env_read_fails_def example_runner_def runner_empty_body_def
      example_dial_def fresh_session_def decimal_22 Let_def
      del: toConnection.simps)

theorem New_read_error_swallowed_witness:
  "Error example_script = None \<and> NewReader new_env_read_fails = None \<and>
   ReadAll new_env_read_fails = (''echo'', Some (OtherError ''unexpected EOF'')) \<and>
   New (Map_value map_example) example_script new_env_read_fails =
     New (Map_value map_example) example_script (new_env_read_fails\<lparr>ReadAll := ([], None)\<rparr>) \<and>
   New (Map_value map_example) example_script new_env_read_fails =
     Return (Some runner_empty_body, None, example_dial @ [Ev_NewSession]) \<and>
   list_ex is_Dial (example_dial @ [Ev_NewSession]) \<and>
   command runner_empty_body = Command example_script @ []"
proof -
  have a: "Error example_script = None" by (simp add: example_script_def)
  have b: "NewReader new_env_read_fails = None"
    by (simp add: new_env_read_fails_def new_env_ok_def)
  have c: "ReadAll new_env_read_fails = (''echo'', Some (OtherError ''unexpected EOF''))"
    by (simp add: new_env_read_fails_def new_env_ok_def)
  have d: "toConnection (Map_value map_example) =
      Return \<lparr>Type = [], Host = ''example.org'', Port = 22, User = ''root'', Password = [],
        Insecure = True\<rparr>"
    by (rule toConnection_map_example)
  from New_read_error_swallowed [OF a b c, of "Map_value map_example"
      "\<lparr>Type = [], Host = ''example.org'', Port = 22, User = ''root'', Password = [],
        Insecure = True\<rparr>"] a b c d New_read_fails_example
  show ?thesis by simp
qed

section \<open>The errors the operations return\<close>

text \<open>
  Claim C2, as stated, fails twice. \<open>Run\<close> on a terminal that cannot enter raw mode
  returns the error of \<^verbatim>\<open>MakeRaw\<close> itself, which is not an \<open>Error\<close>. And \<open>New\<close>, not only
  \<open>Close\<close>, discards a failure: reading the rendered body fails, yet \<open>New\<close> returns a
  runner and nil.
\<close>

theorem errors_not_all_envelopes:
  "Run example_runner env_raw_fails =
     Return (example_runner\<lparr>session := Some (fresh_session\<lparr>Stdin := Some os_Stdin\<rparr>)\<rparr>,
       Some (Bare (OtherError ''inappropriate ioctl for device'')),
       [Ev_IsTerminal, Ev_MakeRaw]) \<and>
   \<not> is_Envelope (Bare (OtherError ''inappropriate ioctl for device'')) \<and>
   snd (ReadAll new_env_read_fails) = Some (OtherError ''unexpected EOF'') \<and>
   New (Map_value map_example) example_script new_env_read_fails =
     Return (Some runner_empty_body, None, example_dial @ [Ev_NewSession])"
  using New_read_fails_example
  by (simp add: Run_def env_raw_fails_def example_runner_def new_env_read_fails_def
      new_env_ok_def Let_def)

lemma Run_command_result:
  "Run_command r res = (r', eo) \<Longrightarrow> envelope_or_nil eo \<and> (eo \<noteq> None) = (res \<noteq> None)"
  by (auto simp: Run_command_def envelope_or_nil_def split: option.splits)

lemma Run_result:
  assumes "\<not> IsTerminal env \<or> pty_ok env" and "Run r env = Return (r', eo, tr)"
  shows "envelope_or_nil eo \<and> (eo \<noteq> None) = (session_Run env \<noteq> None)"
proof -
  from assms obtain r1 where "Run_command r1 (session_Run env) = (r', eo)"
    by (auto simp: Run_def Run_pty_def pty_ok_def Let_def
        split: option.splits sum.splits prod.splits if_splits)
  then show ?thesis by (rule Run_command_result)
qed

text \<open>
  Claim C2, amended. Whenever \<open>New\<close>, \<open>StdoutPipe\<close>, \<open>StderrPipe\<close>, \<open>Start\<close> or \<open>Wait\<close>
  returns, its error is nil or an \<open>Error\<close>, and it is not nil exactly when a step of the
  operation failed (for \<open>New\<close>: one of the steps \<open>New_fails\<close> lists, which do not include
  the read of the rendered body). The same holds for \<open>Run\<close> when standard input is not a
  terminal or the three calls of the terminal block succeed; nothing is said about \<open>Run\<close>
  when one of them fails. \<open>Close\<close> returns nil whatever its teardown calls return.
\<close>

theorem errors_are_envelopes:
  "(New connection s nenv = Return (ro, eo0, tr0) \<longrightarrow>
      envelope_or_nil eo0 \<and> (eo0 \<noteq> None) = New_fails connection s nenv) \<and>
   (StdoutPipe r pipe = Return (r1, rd1, eo1, tr1) \<longrightarrow>
      envelope_or_nil eo1 \<and> (eo1 \<noteq> None) = isl pipe) \<and>
   (StderrPipe r pipe = Return (r2, rd2, eo2, tr2) \<longrightarrow>
      envelope_or_nil eo2 \<and> (eo2 \<noteq> None) = isl pipe) \<and>
   (Start r res = Return (r3, eo3, tr3) \<longrightarrow>
      envelope_or_nil eo3 \<and> (eo3 \<noteq> None) = (res \<noteq> None)) \<and>
   (Wait r res = Return (r4, eo4, tr4) \<longrightarrow>
      envelope_or_nil eo4 \<and> (eo4 \<noteq> None) = (res \<noteq> None)) \<and>
   ((\<not> IsTerminal env \<or> pty_ok env) \<and> Run r env = Return (r5, eo5, tr5) \<longrightarrow>
      envelope_or_nil eo5 \<and> (eo5 \<noteq> None) = (session_Run env \<noteq> None)) \<and>
   (Close p cenv = Return (r6, eo6, tr6) \<longrightarrow> eo6 = None)"
proof -
  have "New connection s nenv = Return (ro, eo0, tr0) \<longrightarrow>
      envelope_or_nil eo0 \<and> (eo0 \<noteq> None) = New_fails connection s nenv"
  proof
    assume a: "New connection s nenv = Return (ro, eo0, tr0)"
    have "envelope_or_nil eo0"
      using New_result(3) [OF a] by (cases eo0) (auto simp: envelope_or_nil_def New_Error_def)
    with New_result(2) [OF a] show "envelope_or_nil eo0 \<and> (eo0 \<noteq> None) = New_fails connection s nenv"
      by simp
  qed
  moreover have "StdoutPipe r pipe = Return (r1, rd1, eo1, tr1) \<longrightarrow>
      envelope_or_nil eo1 \<and> (eo1 \<noteq> None) = isl pipe"
    by (auto simp: StdoutPipe_def envelope_or_nil_def split: option.splits sum.splits)
  moreover have "StderrPipe r pipe = Return (r2, rd2, eo2, tr2) \<longrightarrow>
      envelope_or_nil eo2 \<and> (eo2 \<noteq> None) = isl pipe"
    by (auto simp: StderrPipe_def envelope_or_nil_def split: option.splits sum.splits)
  moreover have "Start r res = Return (r3, eo3, tr3) \<longrightarrow>
      envelope_or_nil eo3 \<and> (eo3 \<noteq> None) = (res \<noteq> None)"
    by (auto simp: Start_def envelope_or_nil_def split: option.splits)
  moreover have "Wait r res = Return (r4, eo4, tr4) \<longrightarrow>
      envelope_or_nil eo4 \<and> (eo4 \<noteq> None) = (res \<noteq> None)"
    by (auto simp: Wait_def envelope_or_nil_def Let_def split: option.splits)
  moreover have "(\<not> IsTerminal env \<or> pty_ok env) \<and> Run r env = Return (r5, eo5, tr5) \<longrightarrow>
      envelope_or_nil eo5 \<and> (eo5 \<noteq> None) = (session_Run env \<noteq> None)"
    using Run_result [of env r r5 eo5 tr5] by blast
  moreover have "Close p cenv = Return (r6, eo6, tr6) \<longrightarrow> eo6 = None"
    by (auto simp: Close_def split: option.splits if_splits)
  ultimately show ?thesis by blast
qed

lemma New_refused_example:
  "New (Map_value map_example) example_script new_env_refused =
     Return (None, Some refused_error, example_dial)"
  by (simp add: New_def New_HostKeyCallback_def New_Error_def fmt_Errorf_def
      toConnection_map_example example_script_def new_env_ok_def new_env_refused_def
      refused_error_def example_dial_def decimal_22 Let_def
      del: toConnection.simps)

theorem errors_are_envelopes_witness:
  "New (Map_value map_example) example_script new_env_refused =
     Return (None, Some refused_error, example_dial) \<and>
   is_Envelope refused_error \<and>
   New_fails (Map_value map_example) example_script new_env_refused \<and>
   \<not> IsTerminal env_batch \<and>
   (\<exists>r5 e5 tr5. Run example_runner env_batch = Return (r5, Some e5, tr5) \<and> is_Envelope e5) \<and>
   (\<exists>r3 e3 tr3. Start example_runner (Some (OtherError ''EOF'')) = Return (r3, Some e3, tr3)
      \<and> is_Envelope e3) \<and>
   (\<exists>r4 e4 tr4. Wait example_runner (Some (OtherError ''EOF'')) = Return (r4, Some e4, tr4)
      \<and> is_Envelope e4) \<and>
   (\<exists>r1 e1 tr1. StdoutPipe example_runner (Inl (OtherError ''EOF'')) = Return (r1, None, Some e1, tr1)
      \<and> is_Envelope e1) \<and>
   (\<exists>r2 e2 tr2. StderrPipe example_runner (Inl (OtherError ''EOF'')) = Return (r2, None, Some e2, tr2)
      \<and> is_Envelope e2) \<and>
   (\<exists>tr6. Close (Some example_runner) close_env_failing = Return (example_runner, None, tr6))"
proof -
  have n: "New (Map_value map_example) example_script new_env_refused =
     Return (None, Some refused_error, example_dial)"
    by (rule New_refused_example)
  have t: "\<not> IsTerminal env_batch" by (simp add: env_batch_def)
  obtain r5 e5 tr5 where run: "Run example_runner env_batch = Return (r5, Some e5, tr5)"
    by (simp add: Run_def Run_command_def env_batch_def example_runner_def Let_def)
  obtain r3 e3 tr3 where
    start: "Start example_runner (Some (OtherError ''EOF'')) = Return (r3, Some e3, tr3)"
    by (simp add: Start_def example_runner_def)
  obtain r4 e4 tr4 where
    wait: "Wait example_runner (Some (OtherError ''EOF'')) = Return (r4, Some e4, tr4)"
    by (simp add: Wait_def example_runner_def Let_def)
  obtain r1 e1 tr1 where
    out: "StdoutPipe example_runner (Inl (OtherError ''EOF'')) = Return (r1, None, Some e1, tr1)"
    by (simp add: StdoutPipe_def example_runner_def)
  obtain r2 e2 tr2 where
    err: "StderrPipe example_runner (Inl (OtherError ''EOF'')) = Return (r2, None, Some e2, tr2)"
    by (simp add: StderrPipe_def example_runner_def)
  obtain tr6 where
    close: "Close (Some example_runner) close_env_failing = Return (example_runner, None, tr6)"
    by (simp add: Close_def example_runner_def)
  from errors_are_envelopes [of "Map_value map_example" example_script new_env_refused None
      "Some refused_error" example_dial example_runner "Inl (OtherError ''EOF'')" r1 None
      "Some e1" tr1 r2 None "Some e2" tr2 "Some (OtherError ''EOF'')" r3 "Some e3" tr3
      r4 "Some e4" tr4 env_batch r5 "Some e5" tr5 "Some example_runner" close_env_failing
      example_runner None tr6]
    n t run start wait out err close
  show ?thesis by (simp add: envelope_or_nil_def)
qed

section \<open>Close\<close>

text \<open>
  A runner never has the running flag set without a channel: \<open>New\<close> returns a runner with
  a channel and the flag clear, and no call changes that.
\<close>

lemma New_runner_invariant:
  assumes "New connection s env = Return (Some r, e, tr)"
  shows "\<not> running r \<and> session r \<noteq> None \<and> client r \<noteq> None \<and> exitCode r = 0"
  using assms
  by (auto simp: New_def New_HostKeyCallback_def Let_def
      split: option.splits sum.splits prod.splits outcome.splits if_splits)

lemma exec_call_invariant:
  assumes "running r \<longrightarrow> session r \<noteq> None" and "exec_call r c = Return r'"
  shows "running r' \<longrightarrow> session r' \<noteq> None"
  using assms
  by (cases c)
     (auto simp: SetStdoutWriter_def SetStderrWriter_def StdoutPipe_def StderrPipe_def Run_def
        Run_command_def Start_def Wait_def Close_def Let_def
        split: option.splits sum.splits prod.splits if_splits)

lemma exec_calls_invariant:
  assumes "running r \<longrightarrow> session r \<noteq> None" and "exec_calls r cs = Return r'"
  shows "running r' \<longrightarrow> session r' \<noteq> None"
  using assms
proof (induction cs arbitrary: r)
  case Nil
  then show ?case by simp
next
  case (Cons c cs)
  from Cons.prems(2) obtain r1
    where c1: "exec_call r c = Return r1" and rest: "exec_calls r1 cs = Return r'"
    by (auto split: outcome.splits)
  from exec_call_invariant [OF Cons.prems(1) c1]
  have "running r1 \<longrightarrow> session r1 \<noteq> None" .
  from Cons.IH [OF this rest] show ?case .
qed

lemma Close_returns_nil:
  assumes "running r \<longrightarrow> session r \<noteq> None"
  shows "\<exists>tr. Close (Some r) env = Return (r, None, tr)"
  using assms by (auto simp: Close_def)

text \<open>After a failed construction the pointer that \<open>New\<close> returns is nil, and \<open>Close\<close> panics on it.\<close>

lemma Close_after_failed_New:
  assumes "New connection s nenv = Return (p, Some e, tr)"
  shows "p = None \<and> Close p env = Panic"
  using New_result(1) [OF assms] by (simp add: Close_def)

text \<open>
  Claim C3, as stated, fails twice. \<open>Close\<close> assigns no field of the runner, so a session
  that was started and not waited for still has its running flag set after \<open>Close\<close> has
  returned nil. And after a construction that failed (here the dial is refused), \<open>New\<close>
  has returned a nil runner, on which \<open>Close\<close> does not return at all.
\<close>

theorem Close_leaves_running_set:
  "Start example_runner None = Return (started_runner, None, [Ev_session_Start ''sh -s echo hi'']) \<and>
   Close (Some started_runner) close_env_ok =
     Return (started_runner, None, [Ev_Signal SIGTERM, Ev_session_Close, Ev_client_Close]) \<and>
   running started_runner \<and>
   New (Map_value map_example) example_script new_env_refused =
     Return (None, Some refused_error, example_dial) \<and>
   Close None close_env_ok = Panic"
  using New_refused_example
  by (simp add: Start_def Close_def example_runner_def started_runner_def)

text \<open>
  Claim C3, amended. For every runner that \<open>New\<close> returned, after any sequence of calls
  on it that return (among them calls of \<open>Run\<close>, \<open>Start\<close> and \<open>Wait\<close> that fail, and
  earlier calls of \<open>Close\<close>), \<open>Close\<close> returns nil whatever its three teardown calls
  return, and leaves the runner as it was, the running flag included; a second \<open>Close\<close>
  on the runner it leaves returns nil again. Nothing is said about \<open>Close\<close> on the nil
  runner of a failed construction.
\<close>

theorem Close_never_fails:
  assumes "New connection s nenv = Return (Some r0, e0, tr0)"
    and "exec_calls r0 cs = Return r"
  shows "\<exists>r' tr. Close (Some r) env = Return (r', None, tr) \<and> r' = r \<and>
           (\<exists>tr'. Close (Some r') env' = Return (r', None, tr'))"
proof -
  from New_runner_invariant [OF assms(1)] have "running r0 \<longrightarrow> session r0 \<noteq> None" by simp
  from exec_calls_invariant [OF this assms(2)] have inv: "running r \<longrightarrow> session r \<noteq> None" .
  from Close_returns_nil [OF inv, of env] Close_returns_nil [OF inv, of env']
  show ?thesis by blast
qed

theorem Close_never_fails_witness:
  "New (Map_value map_example) example_script new_env_ok =
     Return (Some example_runner, None, example_dial @ [Ev_NewSession]) \<and>
   exec_calls example_runner calls_before_close = Return runner_before_close \<and>
   running runner_before_close \<and>
   (\<exists>r' tr. Close (Some runner_before_close) close_env_failing = Return (r', None, tr) \<and>
      r' = runner_before_close \<and>
      (\<exists>tr'. Close (Some r') close_env_ok = Return (r', None, tr')))"
proof -
  have a: "New (Map_value map_example) example_script new_env_ok =
     Return (Some example_runner, None, example_dial @ [Ev_NewSession])"
    using New_example by (simp add: example_dial_def)
  have b: "exec_calls example_runner calls_before_close = Return runner_before_close"
    by (simp add: calls_before_close_def runner_before_close_def example_runner_def
        fresh_session_def Run_def Run_pty_def env_pty_rejected_def Start_def Close_def Let_def)
  have c: "running runner_before_close"
    by (simp add: runner_before_close_def)
  from Close_never_fails [OF a b, of close_env_failing close_env_ok] a b c
  show ?thesis by simp
qed

end
